theory Spec2Isabelle
  imports Main
begin

section \<open>Python values, exceptions and observable events\<close>

text \<open>
  The three scripts are sequences of library calls and \<^verbatim>\<open>print\<close> statements. A run is
  modelled by the list of events it produces, in order, and by how it ends.

  Exceptions are values. Every class below is a subclass of Python's \<^verbatim>\<open>Exception\<close>;
  the constructor names are the Python class names. \<open>Error\<close> is
  \<^verbatim>\<open>mysql.connector.Error\<close> (with its subclasses), \<open>ConnectionError\<close>,
  \<open>Timeout\<close> and \<open>ConnectTimeout\<close> are the classes of \<^verbatim>\<open>requests.exceptions\<close>
  (\<open>ConnectTimeout\<close> inherits from both of the others), \<open>TimeoutExpired\<close> is the one
  of \<^verbatim>\<open>subprocess\<close>. \<open>AttributeError ty a\<close> is "an object of type ty has no
  attribute a", \<open>TypeError ty\<close> is "an object of type ty is not subscriptable",
  \<open>DictSliceError\<close> is what subscripting a dictionary with a slice raises (a
  \<^verbatim>\<open>TypeError\<close>, "unhashable type: slice", up to Python 3.11 and a \<^verbatim>\<open>KeyError\<close>
  from 3.12 on), \<open>UnboundLocalError v\<close> is a read of the local variable v before its
  assignment.
\<close>

datatype exc =
    Error string
  | ConnectionError string
  | ConnectTimeout string
  | Timeout string
  | JSONDecodeError string
  | TimeoutExpired string
  | FileNotFoundError string
  | AttributeError string string
  | TypeError string
  | DictSliceError
  | IndexError string
  | UnboundLocalError string
  | OtherException string

text \<open>
  The values the scripts read from responses and interpolate into printed lines.
  A Python string is held as the bytes of its UTF-8 encoding: one character of the
  string is a lead byte followed by its continuation bytes. A dictionary is an association list (the first binding of a key is the one
  \<^verbatim>\<open>get\<close> finds); a float is kept as its decimal text, no script computes with one;
  \<open>PExc\<close> is an exception object interpolated as \<^verbatim>\<open>{e}\<close>.
\<close>

datatype pyval =
    PNone
  | PBool bool
  | PInt int
  | PFloat string
  | PStr string
  | PList "pyval list"
  | PDict "(string \<times> pyval) list"
  | PExc exc

text \<open>
  An event is an external call together with what it answered (\<open>Inl\<close>: the exception it
  raised, \<open>Inr\<close>: the value it returned), or a \<^verbatim>\<open>print\<close> statement. A print
  statement is identified by its line number in the script's source file and carries the
  values interpolated into its f-string, in order; the literal text around them is
  fixed by the line.
\<close>

datatype ('c, 'v) event = Call 'c "exc + 'v" | Print nat "pyval list"

text \<open>
  A piece of program takes the local variables \<open>'s\<close> and gives the events it produced,
  the local variables afterwards, and either the exception it raised or its value.
\<close>

type_synonym ('c, 'v, 's, 'a) prog = "'s \<Rightarrow> ('c, 'v) event list \<times> 's \<times> (exc + 'a)"

definition ret :: "'a \<Rightarrow> ('c, 'v, 's, 'a) prog" where
  "ret x = (\<lambda>s. ([], s, Inr x))"

definition raise :: "exc \<Rightarrow> ('c, 'v, 's, 'a) prog" where
  "raise x = (\<lambda>s. ([], s, Inl x))"

text \<open>A computation inside the interpreter (no event): its value or its exception.\<close>

definition lift :: "exc + 'a \<Rightarrow> ('c, 'v, 's, 'a) prog" where
  "lift r = (\<lambda>s. ([], s, r))"

definition bind :: "('c, 'v, 's, 'a) prog \<Rightarrow> ('a \<Rightarrow> ('c, 'v, 's, 'b) prog) \<Rightarrow> ('c, 'v, 's, 'b) prog" where
  "bind m k = (\<lambda>s. case m s of
      (t, s', Inl x) \<Rightarrow> (t, s', Inl x)
    | (t, s', Inr a) \<Rightarrow> (case k a s' of (t', s'', r) \<Rightarrow> (t @ t', s'', r)))"

text \<open>Statements one after the other: the first exception ends the block.\<close>

fun block :: "('c, 'v, 's, unit) prog list \<Rightarrow> ('c, 'v, 's, unit) prog" where
  "block [] = ret ()"
| "block (m # ms) = bind m (\<lambda>_. block ms)"

definition print :: "nat \<Rightarrow> pyval list \<Rightarrow> ('c, 'v, 's, unit) prog" where
  "print ln args = (\<lambda>s. ([Print ln args], s, Inr ()))"

text \<open>
  An external call: \<open>c\<close> is the call with its arguments, \<open>r\<close> is what the outside
  world answers, \<open>rec\<close> turns the returned value into the form the event records.
\<close>

definition call :: "'c \<Rightarrow> ('a \<Rightarrow> 'v) \<Rightarrow> exc + 'a \<Rightarrow> ('c, 'v, 's, 'a) prog" where
  "call c rec r = (\<lambda>s. ([Call c (map_sum id rec r)], s, r))"

text \<open>
  \<^verbatim>\<open>try: m  except ...: h\<close>. The handler function gives the body of the first
  \<^verbatim>\<open>except\<close> clause that matches the exception, or \<open>None\<close> when no clause matches.
  An exception raised inside a handler is not caught by the same statement.
\<close>

definition try_except ::
  "('c, 'v, 's, 'a) prog \<Rightarrow> (exc \<Rightarrow> ('c, 'v, 's, 'a) prog option) \<Rightarrow> ('c, 'v, 's, 'a) prog" where
  "try_except m h = (\<lambda>s. case m s of
      (t, s', Inr a) \<Rightarrow> (t, s', Inr a)
    | (t, s', Inl x) \<Rightarrow> (case h x of
          None \<Rightarrow> (t, s', Inl x)
        | Some k \<Rightarrow> (case k s' of (t', s'', r) \<Rightarrow> (t @ t', s'', r))))"

text \<open>
  \<^verbatim>\<open>try: m  finally: f\<close>. The \<^verbatim>\<open>finally\<close> block always runs; when it raises,
  its exception replaces the outcome of \<open>m\<close>.
\<close>

definition try_finally ::
  "('c, 'v, 's, 'a) prog \<Rightarrow> ('c, 'v, 's, unit) prog \<Rightarrow> ('c, 'v, 's, 'a) prog" where
  "try_finally m f = (\<lambda>s. case m s of (t, s', r) \<Rightarrow> (case f s' of
      (t', s'', Inl x) \<Rightarrow> (t @ t', s'', Inl x)
    | (t', s'', Inr _) \<Rightarrow> (t @ t', s'', r)))"

text \<open>\<^verbatim>\<open>for x in xs: body\<close> over a literal list.\<close>

definition for_each :: "'x list \<Rightarrow> ('x \<Rightarrow> ('c, 'v, 's, unit) prog) \<Rightarrow> ('c, 'v, 's, unit) prog" where
  "for_each xs body = block (map body xs)"

text \<open>
  How a script ends: its entry point returns, or an exception leaves it. The Python
  interpreter exits with status 0 in the first case and prints a traceback and exits
  with status 1 in the second; no script calls \<^verbatim>\<open>sys.exit\<close>.
\<close>

datatype outcome = Returned | Raised exc

fun outcome_of :: "exc + unit \<Rightarrow> outcome" where
  "outcome_of (Inl x) = Raised x"
| "outcome_of (Inr _) = Returned"

fun exit_code :: "outcome \<Rightarrow> nat" where
  "exit_code Returned = 0"
| "exit_code (Raised _) = 1"

text \<open>
  What a run did, read off its events: the calls it made, the calls with their answers,
  and the lines it printed.
\<close>

fun calls :: "('c, 'v) event list \<Rightarrow> 'c list" where
  "calls [] = []"
| "calls (Call c r # t) = c # calls t"
| "calls (Print ln args # t) = calls t"

fun interactions :: "('c, 'v) event list \<Rightarrow> ('c \<times> (exc + 'v)) list" where
  "interactions [] = []"
| "interactions (Call c r # t) = (c, r) # interactions t"
| "interactions (Print ln args # t) = interactions t"

fun printed :: "('c, 'v) event list \<Rightarrow> (nat \<times> pyval list) list" where
  "printed [] = []"
| "printed (Call c r # t) = printed t"
| "printed (Print ln args # t) = (ln, args) # printed t"

section \<open>The leaderboard script (test\_leaderboard.py)\<close>

text \<open>
  The script shells out to PowerShell once per endpoint. The command line is
  \<^verbatim>\<open>["powershell", "-Command", ps_cmd]\<close>, where \<^verbatim>\<open>ps_cmd\<close> is the literal PowerShell
  text of lines 41 to 73 with the URL put in its one \<^verbatim>\<open>Invoke-WebRequest -Uri "{url}"
  -Method GET\<close>: \<open>PsCmd url\<close> stands for that text. The call is made with
  \<^verbatim>\<open>capture_output=True, text=True\<close> and the timeout given.
\<close>

datatype cmd_arg = Lit string | PsCmd string

record completed_process =
  stdout :: string
  stderr :: string

datatype lb_call = SubprocessRun "cmd_arg list" nat

text \<open>The outside world of the script: what \<^verbatim>\<open>subprocess.run\<close> does on a command line.\<close>

type_synonym lb_env = "cmd_arg list \<Rightarrow> nat \<Rightarrow> exc + completed_process"

type_synonym 'a lb_prog = "(lb_call, completed_process, unit, 'a) prog"

definition subprocess_run :: "lb_env \<Rightarrow> cmd_arg list \<Rightarrow> nat \<Rightarrow> completed_process lb_prog" where
  "subprocess_run e args timeout = call (SubprocessRun args timeout) id (e args timeout)"

text \<open>
  \<^verbatim>\<open>test_endpoint\<close>, lines 38 to 88: \<^verbatim>\<open>except Exception as e\<close> catches every
  exception of the model.
\<close>

definition test_endpoint :: "lb_env \<Rightarrow> string \<Rightarrow> unit lb_prog" where
  "test_endpoint e url =
     try_except
       (bind (subprocess_run e [Lit ''powershell'', Lit ''-Command'', PsCmd url] 10)
          (\<lambda>result. block [
             print 83 [PStr (stdout result)],
             if stderr result \<noteq> [] then print 85 [PStr (stderr result)] else ret ()]))
       (\<lambda>x. Some (print 88 [PExc x]))"

record endpoint =
  name :: string
  url :: string
  params :: string

text \<open>
  The literal list of lines 9 to 30. The four names are Chinese text; they are given as
  their UTF-8 bytes.
\<close>

definition endpoints :: "endpoint list" where
  "endpoints = [
     \<lparr>name = [CHR 0xE5, CHR 0x85, CHR 0xA8, CHR 0xE5, CHR 0xB1, CHR 0x80, CHR 0xE6, CHR 0x8E,
              CHR 0x92, CHR 0xE8, CHR 0xA1, CHR 0x8C, CHR 0xE6, CHR 0xA6, CHR 0x9C],
      url = ''http://localhost:1874/api/leaderboard'',
      params = ''''\<rparr>,
     \<lparr>name = [CHR 0xE5, CHR 0xA4, CHR 0x8F, CHR 0xE5, CHR 0xAD, CHR 0xA3, CHR 0xE9, CHR 0x94,
              CHR 0xA6, CHR 0xE6, CHR 0xA0, CHR 0x87, CHR 0xE8, CHR 0xB5, CHR 0x9B, CHR 0xE6,
              CHR 0x8E, CHR 0x92, CHR 0xE8, CHR 0xA1, CHR 0x8C, CHR 0xE6, CHR 0xA6, CHR 0x9C],
      url = ''http://localhost:1874/api/leaderboard'',
      params = ''?tournament=SUMMER&limit=5''\<rparr>,
     \<lparr>name = [CHR 0xE6, CHR 0x8E, CHR 0x92, CHR 0xE8, CHR 0xA1, CHR 0x8C, CHR 0xE6, CHR 0xA6,
              CHR 0x9C, CHR 0xE7, CHR 0xBB, CHR 0x9F, CHR 0xE8, CHR 0xAE, CHR 0xA1],
      url = ''http://localhost:1874/api/leaderboard/stats'',
      params = ''''\<rparr>,
     \<lparr>name = [CHR 0xE7, CHR 0x94, CHR 0xA8, CHR 0xE6, CHR 0x88, CHR 0xB7, CHR 0xE6, CHR 0x8E,
              CHR 0x92, CHR 0xE5, CHR 0x90, CHR 0x8D],
      url = ''http://localhost:1874/api/leaderboard/users/1/rank'',
      params = ''''\<rparr>]"

text \<open>\<^verbatim>\<open>test_leaderboard_api\<close>, lines 5 to 36.\<close>

definition test_leaderboard_api :: "lb_env \<Rightarrow> unit lb_prog" where
  "test_leaderboard_api e = block [
     print 32 [],
     for_each endpoints (\<lambda>endpoint. block [
       print 35 [PStr (name endpoint)],
       test_endpoint e (url endpoint @ params endpoint)])]"

text \<open>Running the script is running its entry point (lines 90 and 91).\<close>

definition leaderboard_script :: "lb_env \<Rightarrow> (lb_call, completed_process) event list \<times> outcome" where
  "leaderboard_script e = (case test_leaderboard_api e () of (t, _, r) \<Rightarrow> (t, outcome_of r))"

section \<open>The login script (verify\_login\_fix.py)\<close>

text \<open>
  What \<^verbatim>\<open>requests\<close> hands back: the status code, the body as text
  (\<^verbatim>\<open>response.text\<close>) and what \<^verbatim>\<open>response.json()\<close> gives on it, an exception when
  the body is not JSON.
\<close>

record response =
  status_code :: int
  body_text :: string
  json :: "exc + pyval"

text \<open>
  \<open>Get url timeout\<close> is \<^verbatim>\<open>requests.get(url, timeout=...)\<close>;
  \<open>Post url payload headers timeout\<close> is
  \<^verbatim>\<open>requests.post(url, json=payload, headers=headers, timeout=...)\<close>.
\<close>

datatype http_call =
    Get string nat
  | Post string "(string \<times> string) list" "(string \<times> string) list" nat

record login_env =
  get :: "string \<Rightarrow> nat \<Rightarrow> exc + response"
  post :: "string \<Rightarrow> (string \<times> string) list \<Rightarrow> (string \<times> string) list \<Rightarrow> nat \<Rightarrow> exc + response"

type_synonym 'a login_prog = "(http_call, response, unit, 'a) prog"

definition requests_get :: "login_env \<Rightarrow> string \<Rightarrow> nat \<Rightarrow> response login_prog" where
  "requests_get e u timeout = call (Get u timeout) id (get e u timeout)"

definition requests_post ::
  "login_env \<Rightarrow> string \<Rightarrow> (string \<times> string) list \<Rightarrow> (string \<times> string) list \<Rightarrow> nat
     \<Rightarrow> response login_prog" where
  "requests_post e u payload headers timeout =
     call (Post u payload headers timeout) id (post e u payload headers timeout)"

text \<open>The name Python gives to the type of a value, as its error messages show it.\<close>

fun type_name :: "pyval \<Rightarrow> string" where
  "type_name PNone = ''NoneType''"
| "type_name (PBool _) = ''bool''"
| "type_name (PInt _) = ''int''"
| "type_name (PFloat _) = ''float''"
| "type_name (PStr _) = ''str''"
| "type_name (PList _) = ''list''"
| "type_name (PDict _) = ''dict''"
| "type_name (PExc _) = ''Exception''"

text \<open>
  \<^verbatim>\<open>d.get(k, default)\<close>: only a dictionary has the method.
\<close>

fun py_get :: "pyval \<Rightarrow> string \<Rightarrow> pyval \<Rightarrow> exc + pyval" where
  "py_get (PDict kvs) k dflt = Inr (case map_of kvs k of Some v \<Rightarrow> v | None \<Rightarrow> dflt)"
| "py_get v k dflt = Inl (AttributeError (type_name v) ''get'')"

text \<open>
  The first \<open>n\<close> characters of a string: a continuation byte of UTF-8 is one in the
  range 0x80 to 0xBF, and each character taken is one byte with the continuation bytes
  that follow it.
\<close>

definition is_continuation :: "char \<Rightarrow> bool" where
  "is_continuation c = (128 \<le> (of_char c :: nat) \<and> (of_char c :: nat) < 192)"

fun take_chars :: "nat \<Rightarrow> string \<Rightarrow> string" where
  "take_chars 0 s = []"
| "take_chars (Suc n) [] = []"
| "take_chars (Suc n) (c # cs) =
     c # takeWhile is_continuation cs @ take_chars n (dropWhile is_continuation cs)"

text \<open>
  \<^verbatim>\<open>v[:50]\<close>: a string gives its first 50 characters, a list its first 50 elements; a
  dictionary and any value that cannot be subscripted raise.
\<close>

fun py_slice :: "pyval \<Rightarrow> nat \<Rightarrow> exc + pyval" where
  "py_slice (PStr s) n = Inr (PStr (take_chars n s))"
| "py_slice (PList xs) n = Inr (PList (take n xs))"
| "py_slice (PDict kvs) n = Inl DictSliceError"
| "py_slice v n = Inl (TypeError (type_name v))"

text \<open>The class tests of the \<^verbatim>\<open>except\<close> clauses of lines 52 and 54.\<close>

fun is_ConnectionError :: "exc \<Rightarrow> bool" where
  "is_ConnectionError (ConnectionError _) = True"
| "is_ConnectionError (ConnectTimeout _) = True"
| "is_ConnectionError _ = False"

fun is_Timeout :: "exc \<Rightarrow> bool" where
  "is_Timeout (Timeout _) = True"
| "is_Timeout (ConnectTimeout _) = True"
| "is_Timeout _ = False"

record credentials =
  username :: string
  password :: string

text \<open>Lines 9 to 14.\<close>

definition test_users :: "credentials list" where
  "test_users = [
     \<lparr>username = ''root'', password = ''root123456''\<rparr>,
     \<lparr>username = ''mengshang004'', password = ''123456''\<rparr>]"

definition base_url :: string where
  "base_url = ''http://localhost:1874/api/v1''"

text \<open>The default of line 48, four Chinese characters ("unknown error"), as UTF-8 bytes.\<close>

definition unknown_error :: string where
  "unknown_error = [CHR 0xE6, CHR 0x9C, CHR 0xAA, CHR 0xE7, CHR 0x9F, CHR 0xA5,
                    CHR 0xE9, CHR 0x94, CHR 0x99, CHR 0xE8, CHR 0xAF, CHR 0xAF]"

text \<open>
  \<^verbatim>\<open>data.get('user', {}).get(field)\<close>, the expression of lines 38 to 42.
\<close>

definition user_field :: "pyval \<Rightarrow> string \<Rightarrow> exc + pyval" where
  "user_field data field =
     (case py_get data ''user'' (PDict []) of
        Inl x \<Rightarrow> Inl x
      | Inr u \<Rightarrow> py_get u field PNone)"

text \<open>\<^verbatim>\<open>data.get('access_token', '')[:50]\<close>, the expression of line 43.\<close>

definition token_prefix :: "pyval \<Rightarrow> exc + pyval" where
  "token_prefix data =
     (case py_get data ''access_token'' (PStr []) of
        Inl x \<Rightarrow> Inl x
      | Inr tok \<Rightarrow> py_slice tok 50)"

text \<open>Lines 35 to 50: what the script does with a response.\<close>

definition report_response :: "response \<Rightarrow> unit login_prog" where
  "report_response response =
     (if status_code response = 200 then
        bind (lift (json response)) (\<lambda>data. block [
          print 37 [],
          bind (lift (user_field data ''id'')) (\<lambda>v. print 38 [v]),
          bind (lift (user_field data ''username'')) (\<lambda>v. print 39 [v]),
          bind (lift (user_field data ''nickname'')) (\<lambda>v. print 40 [v]),
          bind (lift (user_field data ''role'')) (\<lambda>v. print 41 [v]),
          bind (lift (user_field data ''points'')) (\<lambda>v. print 42 [v]),
          bind (lift (token_prefix data)) (\<lambda>v. print 43 [v])])
      else block [
        print 45 [],
        try_except
          (bind (lift (json response)) (\<lambda>error_data.
             bind (lift (py_get error_data ''message'' (PStr unknown_error))) (\<lambda>v. print 48 [v])))
          (\<lambda>x. Some (print 50 [PStr (body_text response)]))])"

text \<open>Lines 18 to 57: the body of the loop, for one user.\<close>

definition login_attempt :: "login_env \<Rightarrow> credentials \<Rightarrow> unit login_prog" where
  "login_attempt e user = block [
     print 19 [PStr (username user)],
     try_except
       (bind (requests_post e (base_url @ ''/auth/login'')
                [(''username'', username user), (''password'', password user)]
                [(''Content-Type'', ''application/json'')] 10)
          (\<lambda>response. block [
             print 33 [PInt (status_code response)],
             report_response response]))
       (\<lambda>x. if is_ConnectionError x then Some (print 53 [])
            else if is_Timeout x then Some (print 55 [])
            else Some (print 57 [PExc x]))]"

text \<open>\<^verbatim>\<open>test_login\<close>, lines 5 to 57.\<close>

definition test_login :: "login_env \<Rightarrow> unit login_prog" where
  "test_login e = block [
     print 16 [],
     for_each test_users (login_attempt e)]"

text \<open>\<^verbatim>\<open>check_backend_status\<close>, lines 59 to 71; the bare \<^verbatim>\<open>except\<close> catches everything.\<close>

definition check_backend_status :: "login_env \<Rightarrow> bool login_prog" where
  "check_backend_status e =
     try_except
       (bind (requests_get e ''http://localhost:1874/health'' 5) (\<lambda>response.
          if status_code response = 200 then bind (print 64 []) (\<lambda>_. ret True)
          else bind (print 67 [PInt (status_code response)]) (\<lambda>_. ret False)))
       (\<lambda>x. Some (bind (print 70 []) (\<lambda>_. ret False)))"

text \<open>The script's top level, lines 73 to 83.\<close>

definition login_main :: "login_env \<Rightarrow> unit login_prog" where
  "login_main e = block [
     print 74 [],
     bind (check_backend_status e) (\<lambda>ok.
       if ok then test_login e
       else block [print 80 [], print 81 [], print 82 [], print 83 []])]"

definition login_script :: "login_env \<Rightarrow> (http_call, response) event list \<times> outcome" where
  "login_script e = (case login_main e () of (t, _, r) \<Rightarrow> (t, outcome_of r))"

section \<open>The database script (test\_db\_query.py)\<close>

text \<open>
  The calls into \<^verbatim>\<open>mysql.connector\<close>: \<open>Connect host port database user password\<close>,
  \<^verbatim>\<open>connection.is_connected()\<close>, \<^verbatim>\<open>connection.cursor()\<close>,
  \<^verbatim>\<open>cursor.execute(statement)\<close>, \<^verbatim>\<open>cursor.fetchall()\<close>, \<^verbatim>\<open>cursor.close()\<close>
  and \<^verbatim>\<open>connection.close()\<close>. Any of them may raise.
\<close>

datatype db_call =
    Connect string nat string string string
  | IsConnected
  | Cursor
  | Execute string
  | Fetchall
  | CursorClose
  | ConnectionClose

text \<open>
  What an event records of a returned value: a truth value, the rows fetched (each row
  a tuple of values), or nothing more than the fact that the call returned.
\<close>

datatype db_val = DUnit | DBool bool | DRows "pyval list list"

text \<open>
  The outside world of the script. \<^verbatim>\<open>is_connected\<close> is asked twice, at lines 18 and
  54, and may answer differently: its answer is given by the line of the call. The answer
  of \<^verbatim>\<open>fetchall\<close> is given by the statement executed before it.
\<close>

record db_env =
  mysql_connect :: "string \<Rightarrow> nat \<Rightarrow> string \<Rightarrow> string \<Rightarrow> string \<Rightarrow> exc + unit"
  is_connected :: "nat \<Rightarrow> exc + bool"
  new_cursor :: "exc + unit"
  execute :: "string \<Rightarrow> exc + unit"
  fetchall :: "string \<Rightarrow> exc + pyval list list"
  cursor_close :: "exc + unit"
  connection_close :: "exc + unit"

text \<open>
  The two local variables of \<^verbatim>\<open>test_database_query\<close> that the \<^verbatim>\<open>finally\<close> block
  reads: \<open>None\<close> is a variable not assigned yet.
\<close>

record db_locals =
  connection :: "unit option"
  cursor :: "unit option"

type_synonym 'a db_prog = "(db_call, db_val, db_locals, 'a) prog"

definition set_connection :: "unit \<Rightarrow> unit db_prog" where
  "set_connection c = (\<lambda>s. ([], s\<lparr>connection := Some c\<rparr>, Inr ()))"

definition set_cursor :: "unit \<Rightarrow> unit db_prog" where
  "set_cursor c = (\<lambda>s. ([], s\<lparr>cursor := Some c\<rparr>, Inr ()))"

definition read_connection :: "unit db_prog" where
  "read_connection = (\<lambda>s. case connection s of
      None \<Rightarrow> ([], s, Inl (UnboundLocalError ''connection''))
    | Some c \<Rightarrow> ([], s, Inr c))"

definition read_cursor :: "unit db_prog" where
  "read_cursor = (\<lambda>s. case cursor s of
      None \<Rightarrow> ([], s, Inl (UnboundLocalError ''cursor''))
    | Some c \<Rightarrow> ([], s, Inr c))"

definition connector_connect ::
  "db_env \<Rightarrow> string \<Rightarrow> nat \<Rightarrow> string \<Rightarrow> string \<Rightarrow> string \<Rightarrow> unit db_prog" where
  "connector_connect e h p d u pw = call (Connect h p d u pw) (\<lambda>_. DUnit) (mysql_connect e h p d u pw)"

definition connection_is_connected :: "db_env \<Rightarrow> nat \<Rightarrow> bool db_prog" where
  "connection_is_connected e ln = call IsConnected DBool (is_connected e ln)"

definition connection_cursor :: "db_env \<Rightarrow> unit db_prog" where
  "connection_cursor e = call Cursor (\<lambda>_. DUnit) (new_cursor e)"

definition cursor_execute :: "db_env \<Rightarrow> string \<Rightarrow> unit db_prog" where
  "cursor_execute e q = call (Execute q) (\<lambda>_. DUnit) (execute e q)"

definition cursor_fetchall :: "db_env \<Rightarrow> string \<Rightarrow> pyval list list db_prog" where
  "cursor_fetchall e q = call Fetchall DRows (fetchall e q)"

definition do_cursor_close :: "db_env \<Rightarrow> unit db_prog" where
  "do_cursor_close e = call CursorClose (\<lambda>_. DUnit) (cursor_close e)"

definition do_connection_close :: "db_env \<Rightarrow> unit db_prog" where
  "do_connection_close e = call ConnectionClose (\<lambda>_. DUnit) (connection_close e)"

text \<open>\<^verbatim>\<open>row[i]\<close> on a tuple: out of range raises.\<close>

definition item :: "pyval list \<Rightarrow> nat \<Rightarrow> exc + pyval" where
  "item row i = (if i < length row then Inr (row ! i) else Inl (IndexError ''tuple index out of range''))"

text \<open>\<^verbatim>\<open>enumerate(xs, 1)\<close>.\<close>

definition enumerate1 :: "'a list \<Rightarrow> (nat \<times> 'a) list" where
  "enumerate1 xs = zip [1 ..< Suc (length xs)] xs"

text \<open>The three statements, lines 25, 33 and 44.\<close>

definition describe_users :: string where
  "describe_users = ''DESCRIBE users''"

definition leaderboard_query :: string where
  "leaderboard_query =
     ''SELECT id, username, nickname, points FROM users ORDER BY points DESC, createdAt ASC LIMIT 5''"

definition wrong_column_query :: string where
  "wrong_column_query =
     ''SELECT id, username FROM users ORDER BY points DESC, created_at ASC LIMIT 1''"

text \<open>Line 28, the body of the loop over the columns: \<^verbatim>\<open>col[0]\<close> and \<^verbatim>\<open>col[1]\<close>.\<close>

definition print_column :: "pyval list \<Rightarrow> unit db_prog" where
  "print_column col =
     bind (lift (item col 0)) (\<lambda>a.
     bind (lift (item col 1)) (\<lambda>b. print 28 [a, b]))"

text \<open>Lines 24 to 28.\<close>

definition check_table :: "db_env \<Rightarrow> unit db_prog" where
  "check_table e = block [
     print 24 [],
     cursor_execute e describe_users,
     bind (cursor_fetchall e describe_users) (\<lambda>columns. for_each columns print_column)]"

text \<open>
  Line 37, the body of the loop over \<^verbatim>\<open>enumerate(users, 1)\<close>: the position,
  \<^verbatim>\<open>user[1]\<close>, \<^verbatim>\<open>user[2]\<close> and \<^verbatim>\<open>user[3]\<close>.
\<close>

fun print_user :: "nat \<times> pyval list \<Rightarrow> unit db_prog" where
  "print_user (i, user) =
     bind (lift (item user 1)) (\<lambda>a.
     bind (lift (item user 2)) (\<lambda>b.
     bind (lift (item user 3)) (\<lambda>c. print 37 [PInt (int i), a, b, c])))"

text \<open>Lines 31 to 39.\<close>

definition check_leaderboard :: "db_env \<Rightarrow> unit db_prog" where
  "check_leaderboard e = block [
     print 31 [],
     try_except
       (block [
          cursor_execute e leaderboard_query,
          bind (cursor_fetchall e leaderboard_query) (\<lambda>users. block [
            print 35 [],
            for_each (enumerate1 users) print_user])])
       (\<lambda>x. Some (print 39 [PExc x]))]"

text \<open>Lines 42 to 47.\<close>

definition check_wrong_column :: "db_env \<Rightarrow> unit db_prog" where
  "check_wrong_column e = block [
     print 42 [],
     try_except
       (block [cursor_execute e wrong_column_query, print 45 []])
       (\<lambda>x. Some (print 47 [PExc x]))]"

text \<open>The body of the outer \<^verbatim>\<open>try\<close>, lines 10 to 47.\<close>

definition try_body :: "db_env \<Rightarrow> unit db_prog" where
  "try_body e = block [
     bind (connector_connect e ''localhost'' 3306 ''prediction_system'' ''root'' ''root123456'')
       set_connection,
     bind read_connection (\<lambda>_. bind (connection_is_connected e 18) (\<lambda>connected.
       if connected then block [
         bind (connection_cursor e) set_cursor,
         print 21 [],
         check_table e,
         check_leaderboard e,
         check_wrong_column e]
       else ret ()))]"

fun is_Error :: "exc \<Rightarrow> bool" where
  "is_Error (Error _) = True"
| "is_Error _ = False"

text \<open>
  The \<^verbatim>\<open>finally\<close> block, lines 53 to 56. A connection object is true as a condition,
  so \<^verbatim>\<open>connection and connection.is_connected()\<close> is the answer of
  \<^verbatim>\<open>is_connected\<close> once \<^verbatim>\<open>connection\<close> has been read.
\<close>

definition finally_block :: "db_env \<Rightarrow> unit db_prog" where
  "finally_block e =
     bind read_connection (\<lambda>_. bind (connection_is_connected e 54) (\<lambda>connected.
       if connected then block [
         bind read_cursor (\<lambda>_. do_cursor_close e),
         do_connection_close e]
       else ret ()))"

text \<open>\<^verbatim>\<open>test_database_query\<close>, lines 5 to 56.\<close>

definition test_database_query :: "db_env \<Rightarrow> unit db_prog" where
  "test_database_query e =
     try_finally
       (try_except (try_body e)
          (\<lambda>x. if is_Error x then Some (print 50 [PExc x]) else Some (print 52 [PExc x])))
       (finally_block e)"

text \<open>The script calls the function with no local variable assigned (lines 58 and 59).\<close>

definition db_script :: "db_env \<Rightarrow> (db_call, db_val) event list \<times> outcome" where
  "db_script e =
     (case test_database_query e \<lparr>connection = None, cursor = None\<rparr> of
        (t, _, r) \<Rightarrow> (t, outcome_of r))"

section \<open>Notions used to state the properties\<close>

text \<open>The statements a run of the database script handed to \<^verbatim>\<open>cursor.execute\<close>, in order.\<close>

fun statements :: "db_call list \<Rightarrow> string list" where
  "statements [] = []"
| "statements (Execute q # cs) = q # statements cs"
| "statements (c # cs) = statements cs"

text \<open>
  A piece of program that depends on the outside world \<open>e\<close> only through the answers to
  the calls it makes: two runs from the same local variables whose sequences of calls
  and answers agree as far as both go (one is a prefix of the other, \<open>z1\<close> and \<open>z2\<close> being
  what follows) are the same run.
\<close>

definition determined :: "('e \<Rightarrow> ('c, 'v, 's, 'a) prog) \<Rightarrow> bool" where
  "determined m = (\<forall>e1 e2 s z1 z2.
      interactions (fst (m e1 s)) @ z1 = interactions (fst (m e2 s)) @ z2 \<longrightarrow> m e1 s = m e2 s)"

section \<open>Running the combinators\<close>

lemmas prog_defs = ret_def raise_def lift_def bind_def print_def call_def try_except_def try_finally_def block.simps

declare block.simps [simp del]

lemma calls_append [simp]: "calls (t @ u) = calls t @ calls u"
  by (induction t rule: calls.induct) simp_all

lemma interactions_append [simp]: "interactions (t @ u) = interactions t @ interactions u"
  by (induction t rule: interactions.induct) simp_all

lemma printed_append [simp]: "printed (t @ u) = printed t @ printed u"
  by (induction t rule: printed.induct) simp_all

lemma for_each_total:
  assumes "\<And>x s. snd (body x s) = (s, Inr ())"
  shows "for_each xs body s = (concat (map (\<lambda>x. fst (body x s)) xs), s, Inr ())"
proof (induction xs)
  case Nil
  show ?case by (simp add: for_each_def ret_def block.simps)
next
  case (Cons x xs)
  obtain t where t: "body x s = (t, s, Inr ())"
    using assms [of x s] by (cases "body x s") simp
  show ?case
    using Cons t by (simp add: for_each_def bind_def block.simps)
qed

section \<open>The leaderboard script: every endpoint is attempted\<close>

lemma test_endpoint_snd: "snd (test_endpoint e u s) = (s, Inr ())"
  by (simp add: test_endpoint_def subprocess_run_def prog_defs split: sum.splits)

lemma test_endpoint_calls:
  "calls (fst (test_endpoint e u s)) = [SubprocessRun [Lit ''powershell'', Lit ''-Command'', PsCmd u] 10]"
  by (simp add: test_endpoint_def subprocess_run_def prog_defs split: sum.splits)

lemma test_endpoint_raised:
  "e [Lit ''powershell'', Lit ''-Command'', PsCmd u] 10 = Inl x \<Longrightarrow>
   printed (fst (test_endpoint e u s)) = [(88, [PExc x])]"
  by (simp add: test_endpoint_def subprocess_run_def prog_defs)

lemma endpoint_step_snd:
  "snd (block [print 35 [PStr n], test_endpoint e u] s) = (s, Inr ())"
  using test_endpoint_snd [of e u s]
  by (cases "test_endpoint e u s") (simp add: prog_defs)

lemma endpoint_step_calls:
  "calls (fst (block [print 35 [PStr n], test_endpoint e u] s))
     = [SubprocessRun [Lit ''powershell'', Lit ''-Command'', PsCmd u] 10]"
  using test_endpoint_snd [of e u s] test_endpoint_calls [of e u s]
  by (cases "test_endpoint e u s") (simp add: prog_defs)

lemma calls_concat: "calls (concat ts) = concat (map calls ts)"
  by (induction ts) simp_all

lemma test_leaderboard_api_run:
  "test_leaderboard_api e s =
     (Print 32 [] # concat (map (\<lambda>ep. fst (block [print 35 [PStr (name ep)],
          test_endpoint e (url ep @ params ep)] s)) endpoints), s, Inr ())"
proof -
  have loop: "for_each endpoints (\<lambda>endpoint. block [print 35 [PStr (name endpoint)],
      test_endpoint e (url endpoint @ params endpoint)]) s' =
     (concat (map (\<lambda>ep. fst (block [print 35 [PStr (name ep)],
          test_endpoint e (url ep @ params ep)] s')) endpoints), s', Inr ())" for s'
    by (rule for_each_total) (rule endpoint_step_snd)
  have "test_leaderboard_api e s =
     bind (print 32 []) (\<lambda>_. bind (for_each endpoints (\<lambda>endpoint. block [print 35 [PStr (name endpoint)],
      test_endpoint e (url endpoint @ params endpoint)])) (\<lambda>_. ret ())) s"
    by (simp only: test_leaderboard_api_def block.simps)
  also have "\<dots> = (Print 32 [] # concat (map (\<lambda>ep. fst (block [print 35 [PStr (name ep)],
          test_endpoint e (url ep @ params ep)] s)) endpoints), s, Inr ())"
    by (simp add: bind_def [of "print n a" for n a] bind_def [of "for_each xs b" for xs b] loop)
       (simp add: print_def ret_def)
  finally show ?thesis .
qed

text \<open>
  C10. A failure while one endpoint is tested stays inside \<^verbatim>\<open>test_endpoint\<close>: the
  function never raises and leaves nothing behind but its output, and when
  \<^verbatim>\<open>subprocess.run\<close> raises (timeout, PowerShell missing, anything else) the exception is
  printed by line 88. So the script always returns and always makes the same four
  calls, in the order of the list, whatever the earlier ones answered.
\<close>

theorem leaderboard_attempts_all_endpoints:
  "snd (leaderboard_script e) = Returned \<and>
   calls (fst (leaderboard_script e)) =
     [SubprocessRun [Lit ''powershell'', Lit ''-Command'', PsCmd ''http://localhost:1874/api/leaderboard''] 10,
      SubprocessRun [Lit ''powershell'', Lit ''-Command'',
        PsCmd ''http://localhost:1874/api/leaderboard?tournament=SUMMER&limit=5''] 10,
      SubprocessRun [Lit ''powershell'', Lit ''-Command'', PsCmd ''http://localhost:1874/api/leaderboard/stats''] 10,
      SubprocessRun [Lit ''powershell'', Lit ''-Command'',
        PsCmd ''http://localhost:1874/api/leaderboard/users/1/rank''] 10] \<and>
   snd (test_endpoint e u s) = (s, Inr ()) \<and>
   (\<forall>x. e [Lit ''powershell'', Lit ''-Command'', PsCmd u] 10 = Inl x \<longrightarrow>
        printed (fst (test_endpoint e u s)) = [(88, [PExc x])])"
proof (intro conjI allI impI)
  show "snd (leaderboard_script e) = Returned"
    by (simp add: leaderboard_script_def test_leaderboard_api_run)
  show "calls (fst (leaderboard_script e)) =
     [SubprocessRun [Lit ''powershell'', Lit ''-Command'', PsCmd ''http://localhost:1874/api/leaderboard''] 10,
      SubprocessRun [Lit ''powershell'', Lit ''-Command'',
        PsCmd ''http://localhost:1874/api/leaderboard?tournament=SUMMER&limit=5''] 10,
      SubprocessRun [Lit ''powershell'', Lit ''-Command'', PsCmd ''http://localhost:1874/api/leaderboard/stats''] 10,
      SubprocessRun [Lit ''powershell'', Lit ''-Command'',
        PsCmd ''http://localhost:1874/api/leaderboard/users/1/rank''] 10]"
    by (simp add: leaderboard_script_def test_leaderboard_api_run calls_concat comp_def
          endpoint_step_calls endpoints_def)
  show "snd (test_endpoint e u s) = (s, Inr ())"
    by (rule test_endpoint_snd)
  show "printed (fst (test_endpoint e u s)) = [(88, [PExc x])]"
    if "e [Lit ''powershell'', Lit ''-Command'', PsCmd u] 10 = Inl x" for x
    using that by (rule test_endpoint_raised)
qed

theorem leaderboard_attempts_all_endpoints_witness:
  "snd (leaderboard_script (\<lambda>args timeout. Inl (FileNotFoundError ''powershell''))) = Returned \<and>
   length (calls (fst (leaderboard_script (\<lambda>args timeout. Inl (FileNotFoundError ''powershell''))))) = 4 \<and>
   printed (fst (test_endpoint (\<lambda>args timeout. Inl (FileNotFoundError ''powershell''))
       ''http://localhost:1874/api/leaderboard'' ())) = [(88, [PExc (FileNotFoundError ''powershell'')])]"
  using leaderboard_attempts_all_endpoints
    [of "\<lambda>args timeout. Inl (FileNotFoundError ''powershell'')" "''http://localhost:1874/api/leaderboard''" "()"]
  by simp

section \<open>The login script: what runs, and in which order\<close>

lemma report_response_calls: "calls (fst (report_response r s)) = []"
  by (simp add: report_response_def prog_defs split: sum.splits)

lemma login_attempt_snd: "snd (login_attempt e u s) = (s, Inr ())"
proof (cases "post e (base_url @ ''/auth/login'') [(''username'', username u), (''password'', password u)]
                [(''Content-Type'', ''application/json'')] 10")
  case (Inl x)
  then show ?thesis
    by (simp add: login_attempt_def requests_post_def prog_defs)
next
  case (Inr r)
  obtain t q where "report_response r s = (t, s, q)"
    by (cases "report_response r s") simp
  with Inr show ?thesis
    by (cases q) (simp_all add: login_attempt_def requests_post_def prog_defs)
qed

lemma login_attempt_calls:
  "calls (fst (login_attempt e u s)) =
     [Post (base_url @ ''/auth/login'') [(''username'', username u), (''password'', password u)]
        [(''Content-Type'', ''application/json'')] 10]"
proof (cases "post e (base_url @ ''/auth/login'') [(''username'', username u), (''password'', password u)]
                [(''Content-Type'', ''application/json'')] 10")
  case (Inl x)
  then show ?thesis
    by (simp add: login_attempt_def requests_post_def prog_defs)
next
  case (Inr r)
  obtain t q where "report_response r s = (t, s, q)"
    by (cases "report_response r s") simp
  with Inr report_response_calls [of r s] show ?thesis
    by (cases q) (simp_all add: login_attempt_def requests_post_def prog_defs)
qed

lemma test_login_run:
  "test_login e s = (Print 16 [] # concat (map (\<lambda>u. fst (login_attempt e u s)) test_users), s, Inr ())"
proof -
  have loop: "for_each test_users (login_attempt e) s' =
      (concat (map (\<lambda>u. fst (login_attempt e u s')) test_users), s', Inr ())" for s'
    by (rule for_each_total) (rule login_attempt_snd)
  have "test_login e s = bind (print 16 []) (\<lambda>_. bind (for_each test_users (login_attempt e)) (\<lambda>_. ret ())) s"
    by (simp only: test_login_def block.simps)
  also have "\<dots> = (Print 16 [] # concat (map (\<lambda>u. fst (login_attempt e u s)) test_users), s, Inr ())"
    by (simp add: bind_def [of "print n a" for n a] bind_def [of "for_each xs b" for xs b] loop)
       (simp add: print_def ret_def)
  finally show ?thesis .
qed

lemma test_login_calls:
  "calls (fst (test_login e s)) =
     [Post ''http://localhost:1874/api/v1/auth/login'' [(''username'', ''root''), (''password'', ''root123456'')]
        [(''Content-Type'', ''application/json'')] 10,
      Post ''http://localhost:1874/api/v1/auth/login'' [(''username'', ''mengshang004''), (''password'', ''123456'')]
        [(''Content-Type'', ''application/json'')] 10]"
  by (simp add: test_login_run calls_concat comp_def login_attempt_calls test_users_def base_url_def)

lemma check_backend_status_run:
  "check_backend_status e s =
     (case get e ''http://localhost:1874/health'' 5 of
        Inl x \<Rightarrow> ([Call (Get ''http://localhost:1874/health'' 5) (Inl x), Print 70 []], s, Inr False)
      | Inr r \<Rightarrow>
          if status_code r = 200
          then ([Call (Get ''http://localhost:1874/health'' 5) (Inr r), Print 64 []], s, Inr True)
          else ([Call (Get ''http://localhost:1874/health'' 5) (Inr r), Print 67 [PInt (status_code r)]], s, Inr False))"
  by (simp add: check_backend_status_def requests_get_def prog_defs split: sum.splits)

lemma login_main_run:
  "login_main e s =
     (case get e ''http://localhost:1874/health'' 5 of
        Inl x \<Rightarrow> ([Print 74 [], Call (Get ''http://localhost:1874/health'' 5) (Inl x), Print 70 [],
                   Print 80 [], Print 81 [], Print 82 [], Print 83 []], s, Inr ())
      | Inr r \<Rightarrow>
          if status_code r = 200
          then (Print 74 [] # Call (Get ''http://localhost:1874/health'' 5) (Inr r) # Print 64 []
                  # fst (test_login e s), s, Inr ())
          else ([Print 74 [], Call (Get ''http://localhost:1874/health'' 5) (Inr r),
                 Print 67 [PInt (status_code r)],
                 Print 80 [], Print 81 [], Print 82 [], Print 83 []], s, Inr ()))"
  by (simp add: login_main_def check_backend_status_run test_login_run prog_defs split: sum.splits)

lemma login_script_unreachable:
  "get e ''http://localhost:1874/health'' 5 = Inl x \<Longrightarrow>
   login_script e =
     ([Print 74 [], Call (Get ''http://localhost:1874/health'' 5) (Inl x), Print 70 [],
       Print 80 [], Print 81 [], Print 82 [], Print 83 []], Returned)"
  by (simp add: login_script_def login_main_run)

lemma login_script_unhealthy:
  "get e ''http://localhost:1874/health'' 5 = Inr r \<Longrightarrow> status_code r \<noteq> 200 \<Longrightarrow>
   login_script e =
     ([Print 74 [], Call (Get ''http://localhost:1874/health'' 5) (Inr r), Print 67 [PInt (status_code r)],
       Print 80 [], Print 81 [], Print 82 [], Print 83 []], Returned)"
  by (simp add: login_script_def login_main_run)

lemma login_script_healthy:
  "get e ''http://localhost:1874/health'' 5 = Inr r \<Longrightarrow> status_code r = 200 \<Longrightarrow>
   login_script e =
     (Print 74 [] # Call (Get ''http://localhost:1874/health'' 5) (Inr r) # Print 64 []
        # fst (test_login e ()), Returned)"
  by (simp add: login_script_def login_main_run)

text \<open>
  C9. The first call of the script is \<^verbatim>\<open>GET /health\<close>. A login request is sent only
  when that call returned a response with status 200: any other call in a run implies it.
  When the health check raised, or returned another status, the run is exactly the
  banner, the health call, the line of \<^verbatim>\<open>check_backend_status\<close> (70 or 67) and the
  four lines of instructions (80 to 83), and the script returns.
\<close>

theorem login_only_after_healthy:
  "take 1 (calls (fst (login_script e))) = [Get ''http://localhost:1874/health'' 5] \<and>
   ((\<exists>c \<in> set (calls (fst (login_script e))). c \<noteq> Get ''http://localhost:1874/health'' 5) \<longrightarrow>
      (\<exists>r. get e ''http://localhost:1874/health'' 5 = Inr r \<and> status_code r = 200)) \<and>
   (\<forall>x. get e ''http://localhost:1874/health'' 5 = Inl x \<longrightarrow>
      login_script e =
        ([Print 74 [], Call (Get ''http://localhost:1874/health'' 5) (Inl x), Print 70 [],
          Print 80 [], Print 81 [], Print 82 [], Print 83 []], Returned)) \<and>
   (\<forall>r. get e ''http://localhost:1874/health'' 5 = Inr r \<and> status_code r \<noteq> 200 \<longrightarrow>
      login_script e =
        ([Print 74 [], Call (Get ''http://localhost:1874/health'' 5) (Inr r), Print 67 [PInt (status_code r)],
          Print 80 [], Print 81 [], Print 82 [], Print 83 []], Returned))"
proof (cases "get e ''http://localhost:1874/health'' 5")
  case (Inl x)
  show ?thesis
    unfolding login_script_unreachable [OF Inl] using Inl by simp
next
  case (Inr r)
  show ?thesis
  proof (cases "status_code r = 200")
    case True
    show ?thesis
      unfolding login_script_healthy [OF Inr True] using Inr True by (simp add: test_login_calls)
  next
    case False
    show ?thesis
      unfolding login_script_unhealthy [OF Inr False] using Inr False by simp
  qed
qed

theorem login_only_after_healthy_witness:
  "login_script \<lparr>get = \<lambda>u t. Inl (ConnectionError ''connection refused''),
                  post = \<lambda>u p h t. Inl (ConnectionError ''connection refused'')\<rparr> =
     ([Print 74 [], Call (Get ''http://localhost:1874/health'' 5) (Inl (ConnectionError ''connection refused'')),
       Print 70 [], Print 80 [], Print 81 [], Print 82 [], Print 83 []], Returned)"
  using login_only_after_healthy
    [of "\<lparr>get = \<lambda>u t. Inl (ConnectionError ''connection refused''),
                  post = \<lambda>u p h t. Inl (ConnectionError ''connection refused'')\<rparr>",
     THEN conjunct2, THEN conjunct2, THEN conjunct1, rule_format, of "ConnectionError ''connection refused''"]
  by simp


lemma take_chars_ascii:
  "\<forall>c \<in> set s. \<not> is_continuation c \<Longrightarrow> take_chars n s = take n s"
proof (induction n arbitrary: s)
  case 0
  show ?case by simp
next
  case (Suc n)
  show ?case
  proof (cases s)
    case Nil
    then show ?thesis by simp
  next
    case (Cons c cs)
    with Suc.prems have none: "\<forall>c \<in> set cs. \<not> is_continuation c" by simp
    then have "takeWhile is_continuation cs = []" "dropWhile is_continuation cs = cs"
      by (cases cs; simp)+
    with Cons Suc.IH [OF none] show ?thesis by simp
  qed
qed

lemma take_chars_keeps_characters_whole:
  "take_chars 2 [CHR ''t'', CHR 0xC3, CHR 0xA9, CHR ''k''] = [CHR ''t'', CHR 0xC3, CHR 0xA9]"
  by (simp add: numeral_2_eq_2 is_continuation_def)




section \<open>The database script: the try block and the finally block\<close>

lemma for_each_quiet:
  assumes "\<And>x s. calls (fst (body x s)) = [] \<and> fst (snd (body x s)) = s"
  shows "calls (fst (for_each xs body s)) = [] \<and> fst (snd (for_each xs body s)) = s"
proof (induction xs)
  case Nil
  show ?case by (simp add: for_each_def ret_def block.simps)
next
  case (Cons x xs)
  obtain t r where t: "body x s = (t, s, r)" "calls t = []"
    using assms [of x s] by (cases "body x s") auto
  obtain t' s' r' where t': "for_each xs body s = (t', s', r')"
    by (cases "for_each xs body s")
  with Cons have "calls t' = []" "s' = s" by simp_all
  with t t' show ?case
    by (cases r) (simp_all add: for_each_def bind_def block.simps)
qed

lemma finally_block_run:
  "finally_block e s =
     (case connection s of
        None \<Rightarrow> ([], s, Inl (UnboundLocalError ''connection''))
      | Some _ \<Rightarrow>
         (case is_connected e 54 of
            Inl y \<Rightarrow> ([Call IsConnected (Inl y)], s, Inl y)
          | Inr connected \<Rightarrow>
             if \<not> connected then ([Call IsConnected (Inr (DBool False))], s, Inr ())
             else (case cursor s of
                None \<Rightarrow> ([Call IsConnected (Inr (DBool True))], s, Inl (UnboundLocalError ''cursor''))
              | Some _ \<Rightarrow>
                 (case cursor_close e of
                    Inl z \<Rightarrow> ([Call IsConnected (Inr (DBool True)), Call CursorClose (Inl z)], s, Inl z)
                  | Inr _ \<Rightarrow>
                     (case connection_close e of
                        Inl w \<Rightarrow> ([Call IsConnected (Inr (DBool True)), Call CursorClose (Inr DUnit),
                                    Call ConnectionClose (Inl w)], s, Inl w)
                      | Inr _ \<Rightarrow> ([Call IsConnected (Inr (DBool True)), Call CursorClose (Inr DUnit),
                                    Call ConnectionClose (Inr DUnit)], s, Inr ()))))))"
  by (simp add: finally_block_def read_connection_def read_cursor_def connection_is_connected_def
        do_cursor_close_def do_connection_close_def prog_defs split: option.splits sum.splits)

lemma print_column_quiet:
  "calls (fst (print_column col s)) = [] \<and> fst (snd (print_column col s)) = s"
  by (simp add: print_column_def prog_defs item_def)

lemma print_user_quiet:
  "calls (fst (print_user p s)) = [] \<and> fst (snd (print_user p s)) = s"
  by (cases p) (simp add: prog_defs item_def)

lemma check_table_run:
  "\<exists>t r. check_table e s = (t, s, r) \<and>
     calls t = Execute describe_users # (case execute e describe_users of Inl _ \<Rightarrow> [] | Inr _ \<Rightarrow> [Fetchall])"
proof (cases "execute e describe_users")
  case (Inl x)
  then show ?thesis
    by (simp add: check_table_def cursor_execute_def prog_defs)
next
  case ex: (Inr u)
  show ?thesis
  proof (cases "fetchall e describe_users")
    case (Inl y)
    with ex show ?thesis
      by (simp add: check_table_def cursor_execute_def cursor_fetchall_def prog_defs)
  next
    case (Inr rows)
    obtain tl rl where loop: "for_each rows print_column s = (tl, s, rl)" "calls tl = []"
      using for_each_quiet [of print_column rows s, OF print_column_quiet]
      by (cases "for_each rows print_column s") auto
    with ex Inr show ?thesis
      by (cases rl) (simp_all add: check_table_def cursor_execute_def cursor_fetchall_def prog_defs)
  qed
qed

lemma check_table_ok:
  assumes "execute e describe_users = Inr ()" and "fetchall e describe_users = Inr rows"
    and "\<forall>row \<in> set rows. 2 \<le> length row"
  shows "snd (snd (check_table e s)) = Inr ()"
proof -
  have "snd (for_each rs print_column s') = (s', Inr ())" if "\<forall>row \<in> set rs. 2 \<le> length row"
    for rs and s' :: db_locals
    using that
  proof (induction rs)
    case Nil
    show ?case by (simp add: for_each_def ret_def block.simps)
  next
    case (Cons r rs)
    then have "2 \<le> length r" and rest: "snd (block (map print_column rs) s') = (s', Inr ())"
      by (simp_all add: for_each_def)
    then have "print_column r s' = ([Print 28 [r ! 0, r ! 1]], s', Inr ())"
      by (auto simp add: print_column_def item_def prog_defs)
    with rest show ?case
      by (cases "block (map print_column rs) s'") (simp add: for_each_def bind_def block.simps)
  qed
  from this [of rows s] assms(3) obtain tl where "for_each rows print_column s = (tl, s, Inr ())"
    by (cases "for_each rows print_column s") auto
  with assms(1,2) show ?thesis
    by (simp add: check_table_def cursor_execute_def cursor_fetchall_def prog_defs)
qed

lemma check_leaderboard_run:
  "\<exists>t. check_leaderboard e s = (t, s, Inr ()) \<and>
     calls t = Execute leaderboard_query #
        (case execute e leaderboard_query of Inl _ \<Rightarrow> [] | Inr _ \<Rightarrow> [Fetchall])"
proof (cases "execute e leaderboard_query")
  case (Inl x)
  then show ?thesis
    by (simp add: check_leaderboard_def cursor_execute_def prog_defs)
next
  case ex: (Inr u)
  show ?thesis
  proof (cases "fetchall e leaderboard_query")
    case (Inl y)
    with ex show ?thesis
      by (simp add: check_leaderboard_def cursor_execute_def cursor_fetchall_def prog_defs)
  next
    case (Inr users)
    obtain tl rl where loop: "for_each (enumerate1 users) print_user s = (tl, s, rl)" "calls tl = []"
      using for_each_quiet [of print_user "enumerate1 users" s, OF print_user_quiet]
      by (cases "for_each (enumerate1 users) print_user s") auto
    with ex Inr show ?thesis
      by (cases rl) (simp_all add: check_leaderboard_def cursor_execute_def cursor_fetchall_def prog_defs)
  qed
qed

lemma check_wrong_column_run:
  "\<exists>t. check_wrong_column e s = (t, s, Inr ()) \<and> calls t = [Execute wrong_column_query]"
  by (cases "execute e wrong_column_query")
     (simp_all add: check_wrong_column_def cursor_execute_def prog_defs)

lemma statements_append [simp]: "statements (cs @ ds) = statements cs @ statements ds"
  by (induction cs rule: statements.induct) simp_all

lemma try_part_no_connection:
  assumes "mysql_connect e ''localhost'' 3306 ''prediction_system'' ''root'' ''root123456'' = Inl x"
  shows "try_except (try_body e)
           (\<lambda>x. if is_Error x then Some (print 50 [PExc x]) else Some (print 52 [PExc x]))
           \<lparr>connection = None, cursor = None\<rparr> =
         ([Call (Connect ''localhost'' 3306 ''prediction_system'' ''root'' ''root123456'') (Inl x),
           Print (if is_Error x then 50 else 52) [PExc x]],
          \<lparr>connection = None, cursor = None\<rparr>, Inr ())"
  using assms by (simp add: try_body_def connector_connect_def prog_defs)

lemma try_part_no_cursor:
  assumes "mysql_connect e ''localhost'' 3306 ''prediction_system'' ''root'' ''root123456'' = Inr ()"
    and "is_connected e 18 \<noteq> Inr True \<or> new_cursor e \<noteq> Inr ()"
  shows "\<exists>t. try_except (try_body e)
           (\<lambda>x. if is_Error x then Some (print 50 [PExc x]) else Some (print 52 [PExc x]))
           \<lparr>connection = None, cursor = None\<rparr> =
         (Call (Connect ''localhost'' 3306 ''prediction_system'' ''root'' ''root123456'') (Inr DUnit) # t,
          \<lparr>connection = Some (), cursor = None\<rparr>, Inr ()) \<and>
         calls t \<in> {[IsConnected], [IsConnected, Cursor]}"
proof (cases "is_connected e 18")
  case (Inl y)
  with assms(1) show ?thesis
    by (simp add: try_body_def connector_connect_def set_connection_def read_connection_def
          connection_is_connected_def prog_defs)
next
  case (Inr connected)
  show ?thesis
  proof (cases connected)
    case False
    with assms(1) Inr show ?thesis
      by (simp add: try_body_def connector_connect_def set_connection_def read_connection_def
            connection_is_connected_def prog_defs)
  next
    case True
    with Inr assms(2) obtain z where "new_cursor e = Inl z"
      by (cases "new_cursor e") auto
    with assms(1) Inr True show ?thesis
      by (simp add: try_body_def connector_connect_def set_connection_def read_connection_def
            connection_is_connected_def connection_cursor_def prog_defs)
  qed
qed

lemma try_part_cursor:
  assumes "mysql_connect e ''localhost'' 3306 ''prediction_system'' ''root'' ''root123456'' = Inr ()"
    and "is_connected e 18 = Inr True" and "new_cursor e = Inr ()"
  shows "\<exists>t. try_except (try_body e)
           (\<lambda>x. if is_Error x then Some (print 50 [PExc x]) else Some (print 52 [PExc x]))
           \<lparr>connection = None, cursor = None\<rparr> =
         (Call (Connect ''localhost'' 3306 ''prediction_system'' ''root'' ''root123456'') (Inr DUnit)
            # Call IsConnected (Inr (DBool True)) # Call Cursor (Inr DUnit) # t,
          \<lparr>connection = Some (), cursor = Some ()\<rparr>, Inr ()) \<and>
         (\<forall>c \<in> set (calls t). c = Fetchall \<or> (\<exists>q. c = Execute q)) \<and>
         statements (calls t) =
           (case snd (snd (check_table e \<lparr>connection = Some (), cursor = Some ()\<rparr>)) of
              Inl _ \<Rightarrow> [describe_users]
            | Inr _ \<Rightarrow> [describe_users, leaderboard_query, wrong_column_query])"
proof -
  obtain tT rT where T: "check_table e \<lparr>connection = Some (), cursor = Some ()\<rparr> =
      (tT, \<lparr>connection = Some (), cursor = Some ()\<rparr>, rT)"
    "calls tT = Execute describe_users # (case execute e describe_users of Inl _ \<Rightarrow> [] | Inr _ \<Rightarrow> [Fetchall])"
    using check_table_run by blast
  obtain tL where L: "check_leaderboard e \<lparr>connection = Some (), cursor = Some ()\<rparr> =
      (tL, \<lparr>connection = Some (), cursor = Some ()\<rparr>, Inr ())"
    "calls tL = Execute leaderboard_query #
        (case execute e leaderboard_query of Inl _ \<Rightarrow> [] | Inr _ \<Rightarrow> [Fetchall])"
    using check_leaderboard_run by blast
  obtain tW where W: "check_wrong_column e \<lparr>connection = Some (), cursor = Some ()\<rparr> =
      (tW, \<lparr>connection = Some (), cursor = Some ()\<rparr>, Inr ())"
    "calls tW = [Execute wrong_column_query]"
    using check_wrong_column_run by blast
  show ?thesis
  proof (cases rT)
    case (Inl x)
    with assms T show ?thesis
      by (simp add: try_body_def connector_connect_def set_connection_def read_connection_def
            connection_is_connected_def connection_cursor_def set_cursor_def prog_defs
            split: sum.splits)
  next
    case (Inr u)
    with assms T L W show ?thesis
      by (simp add: try_body_def connector_connect_def set_connection_def read_connection_def
            connection_is_connected_def connection_cursor_def set_cursor_def prog_defs
            split: sum.splits)
  qed
qed

lemma login_script_returns: "snd (login_script e) = Returned"
  by (simp add: login_script_def login_main_run test_login_run split: sum.splits)

lemma db_script_finally:
  assumes "try_except (try_body e)
           (\<lambda>x. if is_Error x then Some (print 50 [PExc x]) else Some (print 52 [PExc x]))
           \<lparr>connection = None, cursor = None\<rparr> = (t, s, Inr ())"
  shows "db_script e = (t @ fst (finally_block e s), outcome_of (snd (snd (finally_block e s))))"
proof -
  obtain tf sf rf where f: "finally_block e s = (tf, sf, rf)"
    by (cases "finally_block e s")
  with assms show ?thesis
    by (cases rf) (simp_all add: db_script_def test_database_query_def try_finally_def)
qed

lemma db_script_no_connection:
  assumes "mysql_connect e ''localhost'' 3306 ''prediction_system'' ''root'' ''root123456'' = Inl x"
  shows "db_script e =
     ([Call (Connect ''localhost'' 3306 ''prediction_system'' ''root'' ''root123456'') (Inl x),
       Print (if is_Error x then 50 else 52) [PExc x]],
      Raised (UnboundLocalError ''connection''))"
  by (simp add: db_script_finally [OF try_part_no_connection [OF assms]] finally_block_run)

text \<open>
  C1. The leaderboard script and the login script catch every exception and always
  return. The database script does not: when \<^verbatim>\<open>mysql.connector.connect\<close> raises (the server refuses the connection), line 50
  prints the error, and then the \<^verbatim>\<open>finally\<close> block reads \<^verbatim>\<open>connection\<close>, which was
  never assigned. The \<^verbatim>\<open>UnboundLocalError\<close> leaves \<^verbatim>\<open>test_database_query\<close> and the
  process exits with status 1.
\<close>

theorem db_script_connection_refused:
  "db_script \<lparr>mysql_connect = \<lambda>h p d u pw. Inl (Error ''2003: connection refused''),
               is_connected = \<lambda>ln. Inr False, new_cursor = Inr (),
               execute = \<lambda>q. Inr (), fetchall = \<lambda>q. Inr [],
               cursor_close = Inr (), connection_close = Inr ()\<rparr> =
     ([Call (Connect ''localhost'' 3306 ''prediction_system'' ''root'' ''root123456'')
         (Inl (Error ''2003: connection refused'')),
       Print 50 [PExc (Error ''2003: connection refused'')]],
      Raised (UnboundLocalError ''connection'')) \<and>
   exit_code (snd (db_script \<lparr>mysql_connect = \<lambda>h p d u pw. Inl (Error ''2003: connection refused''),
               is_connected = \<lambda>ln. Inr False, new_cursor = Inr (),
               execute = \<lambda>q. Inr (), fetchall = \<lambda>q. Inr [],
               cursor_close = Inr (), connection_close = Inr ()\<rparr>)) = 1"
  by (simp add: db_script_no_connection)

lemma finally_statements: "statements (calls (fst (finally_block e s))) = []"
  by (simp add: finally_block_run split: option.splits sum.splits)

lemma db_statements:
  "statements (calls (fst (db_script e))) =
     (if mysql_connect e ''localhost'' 3306 ''prediction_system'' ''root'' ''root123456'' = Inr ()
         \<and> is_connected e 18 = Inr True \<and> new_cursor e = Inr ()
      then (case snd (snd (check_table e \<lparr>connection = Some (), cursor = Some ()\<rparr>)) of
              Inl _ \<Rightarrow> [describe_users]
            | Inr _ \<Rightarrow> [describe_users, leaderboard_query, wrong_column_query])
      else [])"
proof (cases "mysql_connect e ''localhost'' 3306 ''prediction_system'' ''root'' ''root123456''")
  case (Inl x)
  then show ?thesis
    by (simp add: db_script_no_connection)
next
  case (Inr u)
  then have c: "mysql_connect e ''localhost'' 3306 ''prediction_system'' ''root'' ''root123456'' = Inr ()"
    by simp
  show ?thesis
  proof (cases "is_connected e 18 = Inr True \<and> new_cursor e = Inr ()")
    case True
    then obtain t where "try_except (try_body e)
           (\<lambda>x. if is_Error x then Some (print 50 [PExc x]) else Some (print 52 [PExc x]))
           \<lparr>connection = None, cursor = None\<rparr> =
         (Call (Connect ''localhost'' 3306 ''prediction_system'' ''root'' ''root123456'') (Inr DUnit)
            # Call IsConnected (Inr (DBool True)) # Call Cursor (Inr DUnit) # t,
          \<lparr>connection = Some (), cursor = Some ()\<rparr>, Inr ())"
      and "statements (calls t) =
           (case snd (snd (check_table e \<lparr>connection = Some (), cursor = Some ()\<rparr>)) of
              Inl _ \<Rightarrow> [describe_users]
            | Inr _ \<Rightarrow> [describe_users, leaderboard_query, wrong_column_query])"
      using try_part_cursor [OF c] by blast
    with c True show ?thesis
      by (simp add: db_script_finally finally_statements)
  next
    case False
    then have "is_connected e 18 \<noteq> Inr True \<or> new_cursor e \<noteq> Inr ()" by blast
    from try_part_no_cursor [OF c this] obtain t where "try_except (try_body e)
           (\<lambda>x. if is_Error x then Some (print 50 [PExc x]) else Some (print 52 [PExc x]))
           \<lparr>connection = None, cursor = None\<rparr> =
         (Call (Connect ''localhost'' 3306 ''prediction_system'' ''root'' ''root123456'') (Inr DUnit) # t,
          \<lparr>connection = Some (), cursor = None\<rparr>, Inr ())"
      and "calls t \<in> {[IsConnected], [IsConnected, Cursor]}"
      by blast
    with c False show ?thesis
      by (auto simp add: db_script_finally finally_statements)
  qed
qed

text \<open>
  C3, as amended (three literal statements, not two). The statements executed by a run
  are, in this order, the schema description, the
  ordering query on \<^verbatim>\<open>createdAt\<close> and the ordering query on \<^verbatim>\<open>created_at\<close>: a run
  executes none of them, the first only (when describing the table failed), or all three;
  a failure of the first ordering query does not stop the second. All three are executed
  when the connection and the cursor were obtained and the table description was fetched
  and printed.
\<close>

theorem db_statements_in_order:
  "statements (calls (fst (db_script e))) \<in>
     {[],
      [''DESCRIBE users''],
      [''DESCRIBE users'',
       ''SELECT id, username, nickname, points FROM users ORDER BY points DESC, createdAt ASC LIMIT 5'',
       ''SELECT id, username FROM users ORDER BY points DESC, created_at ASC LIMIT 1'']} \<and>
   (mysql_connect e ''localhost'' 3306 ''prediction_system'' ''root'' ''root123456'' = Inr () \<and>
    is_connected e 18 = Inr True \<and> new_cursor e = Inr () \<and>
    execute e ''DESCRIBE users'' = Inr () \<and> fetchall e ''DESCRIBE users'' = Inr rows \<and>
    (\<forall>row \<in> set rows. 2 \<le> length row) \<longrightarrow>
    statements (calls (fst (db_script e))) =
      [''DESCRIBE users'',
       ''SELECT id, username, nickname, points FROM users ORDER BY points DESC, createdAt ASC LIMIT 5'',
       ''SELECT id, username FROM users ORDER BY points DESC, created_at ASC LIMIT 1''])"
proof (intro conjI impI)
  show "statements (calls (fst (db_script e))) \<in>
     {[],
      [''DESCRIBE users''],
      [''DESCRIBE users'',
       ''SELECT id, username, nickname, points FROM users ORDER BY points DESC, createdAt ASC LIMIT 5'',
       ''SELECT id, username FROM users ORDER BY points DESC, created_at ASC LIMIT 1'']}"
    unfolding db_statements describe_users_def leaderboard_query_def wrong_column_query_def
    by (simp split: sum.splits)
next
  assume h: "mysql_connect e ''localhost'' 3306 ''prediction_system'' ''root'' ''root123456'' = Inr () \<and>
    is_connected e 18 = Inr True \<and> new_cursor e = Inr () \<and>
    execute e ''DESCRIBE users'' = Inr () \<and> fetchall e ''DESCRIBE users'' = Inr rows \<and>
    (\<forall>row \<in> set rows. 2 \<le> length row)"
  then have "snd (snd (check_table e \<lparr>connection = Some (), cursor = Some ()\<rparr>)) = Inr ()"
    by (intro check_table_ok [of e rows]) (simp_all add: describe_users_def)
  with h show "statements (calls (fst (db_script e))) =
      [''DESCRIBE users'',
       ''SELECT id, username, nickname, points FROM users ORDER BY points DESC, createdAt ASC LIMIT 5'',
       ''SELECT id, username FROM users ORDER BY points DESC, created_at ASC LIMIT 1'']"
    unfolding db_statements by (simp add: describe_users_def leaderboard_query_def wrong_column_query_def)
qed

theorem db_statements_in_order_witness:
  "statements (calls (fst (db_script
      \<lparr>mysql_connect = \<lambda>h p d u pw. Inr (), is_connected = \<lambda>ln. Inr True, new_cursor = Inr (),
       execute = \<lambda>q. if q = ''DESCRIBE users'' then Inr () else Inl (Error ''1054: unknown column''),
       fetchall = \<lambda>q. Inr [[PStr ''id'', PStr ''bigint''], [PStr ''points'', PStr ''int'']],
       cursor_close = Inr (), connection_close = Inr ()\<rparr>))) =
      [''DESCRIBE users'',
       ''SELECT id, username, nickname, points FROM users ORDER BY points DESC, createdAt ASC LIMIT 5'',
       ''SELECT id, username FROM users ORDER BY points DESC, created_at ASC LIMIT 1'']"
  using db_statements_in_order
    [of "\<lparr>mysql_connect = \<lambda>h p d u pw. Inr (), is_connected = \<lambda>ln. Inr True, new_cursor = Inr (),
       execute = \<lambda>q. if q = ''DESCRIBE users'' then Inr () else Inl (Error ''1054: unknown column''),
       fetchall = \<lambda>q. Inr [[PStr ''id'', PStr ''bigint''], [PStr ''points'', PStr ''int'']],
       cursor_close = Inr (), connection_close = Inr ()\<rparr>"
        "[[PStr ''id'', PStr ''bigint''], [PStr ''points'', PStr ''int'']]",
     THEN conjunct2]
  by simp

text \<open>
  C3 as stated counts two literal statements. A run in which every call succeeds executes
  three different ones.
\<close>

theorem db_three_statements_counterexample:
  "statements (calls (fst (db_script
      \<lparr>mysql_connect = \<lambda>h p d u pw. Inr (), is_connected = \<lambda>ln. Inr True, new_cursor = Inr (),
       execute = \<lambda>q. Inr (), fetchall = \<lambda>q. Inr [],
       cursor_close = Inr (), connection_close = Inr ()\<rparr>))) =
     [''DESCRIBE users'',
      ''SELECT id, username, nickname, points FROM users ORDER BY points DESC, createdAt ASC LIMIT 5'',
      ''SELECT id, username FROM users ORDER BY points DESC, created_at ASC LIMIT 1''] \<and>
   length (remdups (statements (calls (fst (db_script
      \<lparr>mysql_connect = \<lambda>h p d u pw. Inr (), is_connected = \<lambda>ln. Inr True, new_cursor = Inr (),
       execute = \<lambda>q. Inr (), fetchall = \<lambda>q. Inr [],
       cursor_close = Inr (), connection_close = Inr ()\<rparr>))))) = 3"
  by (simp add: db_script_def test_database_query_def try_body_def finally_block_def
        check_table_def check_leaderboard_def check_wrong_column_def for_each_def
        enumerate1_def connector_connect_def connection_is_connected_def connection_cursor_def
        cursor_execute_def cursor_fetchall_def do_cursor_close_def do_connection_close_def
        set_connection_def set_cursor_def read_connection_def read_cursor_def
        describe_users_def leaderboard_query_def wrong_column_query_def prog_defs)

lemma db_calls_with_cursor:
  assumes "mysql_connect e ''localhost'' 3306 ''prediction_system'' ''root'' ''root123456'' = Inr ()"
    and "is_connected e 18 = Inr True" and "new_cursor e = Inr ()"
  shows "\<exists>front. calls (fst (db_script e)) =
            front @ calls (fst (finally_block e \<lparr>connection = Some (), cursor = Some ()\<rparr>)) \<and>
          CursorClose \<notin> set front \<and> ConnectionClose \<notin> set front \<and>
          count_list front (Connect ''localhost'' 3306 ''prediction_system'' ''root'' ''root123456'') = 1"
proof -
  from try_part_cursor [OF assms] obtain t where t: "try_except (try_body e)
           (\<lambda>x. if is_Error x then Some (print 50 [PExc x]) else Some (print 52 [PExc x]))
           \<lparr>connection = None, cursor = None\<rparr> =
         (Call (Connect ''localhost'' 3306 ''prediction_system'' ''root'' ''root123456'') (Inr DUnit)
            # Call IsConnected (Inr (DBool True)) # Call Cursor (Inr DUnit) # t,
          \<lparr>connection = Some (), cursor = Some ()\<rparr>, Inr ())"
      and only: "\<forall>c \<in> set (calls t). c = Fetchall \<or> (\<exists>q. c = Execute q)"
    by blast
  from only have "CursorClose \<notin> set (calls t)" "ConnectionClose \<notin> set (calls t)"
    "count_list (calls t) (Connect ''localhost'' 3306 ''prediction_system'' ''root'' ''root123456'') = 0"
    by (auto simp: count_list_0_iff)
  then show ?thesis
    by (intro exI [of _ "Connect ''localhost'' 3306 ''prediction_system'' ''root'' ''root123456''
           # IsConnected # Cursor # calls t"]) (simp add: db_script_finally [OF t])
qed

text \<open>
  C2, as amended. Once the connection is open and its cursor created, every path through
  \<^verbatim>\<open>test_database_query\<close> reaches the \<^verbatim>\<open>finally\<close> block and asks
  \<^verbatim>\<open>is_connected\<close> again. If the answer is true, \<^verbatim>\<open>cursor.close()\<close> is called and,
  when it returns, \<^verbatim>\<open>connection.close()\<close>, and these are the last calls of the run and
  the only close calls. If the answer is false, no close call is made.
\<close>

theorem db_closes_when_still_connected:
  assumes "mysql_connect e ''localhost'' 3306 ''prediction_system'' ''root'' ''root123456'' = Inr ()"
    and "is_connected e 18 = Inr True" and "new_cursor e = Inr ()"
  shows "(is_connected e 54 = Inr True \<longrightarrow>
            (\<exists>front. calls (fst (db_script e)) =
                front @ IsConnected # CursorClose #
                  (case cursor_close e of Inl _ \<Rightarrow> [] | Inr _ \<Rightarrow> [ConnectionClose]) \<and>
              CursorClose \<notin> set front \<and> ConnectionClose \<notin> set front)) \<and>
         (is_connected e 54 = Inr False \<longrightarrow>
            CursorClose \<notin> set (calls (fst (db_script e))) \<and>
            ConnectionClose \<notin> set (calls (fst (db_script e))))"
proof -
  from db_calls_with_cursor [OF assms] obtain front where
    front: "calls (fst (db_script e)) =
            front @ calls (fst (finally_block e \<lparr>connection = Some (), cursor = Some ()\<rparr>))"
      "CursorClose \<notin> set front" "ConnectionClose \<notin> set front"
    by blast
  show ?thesis
  proof (intro conjI impI)
    assume "is_connected e 54 = Inr True"
    then have "calls (fst (finally_block e \<lparr>connection = Some (), cursor = Some ()\<rparr>)) =
        IsConnected # CursorClose # (case cursor_close e of Inl _ \<Rightarrow> [] | Inr _ \<Rightarrow> [ConnectionClose])"
      by (simp add: finally_block_run split: sum.splits)
    with front show "\<exists>front. calls (fst (db_script e)) =
                front @ IsConnected # CursorClose #
                  (case cursor_close e of Inl _ \<Rightarrow> [] | Inr _ \<Rightarrow> [ConnectionClose]) \<and>
              CursorClose \<notin> set front \<and> ConnectionClose \<notin> set front"
      by (intro exI [of _ front]) simp
  next
    assume "is_connected e 54 = Inr False"
    then have "calls (fst (finally_block e \<lparr>connection = Some (), cursor = Some ()\<rparr>)) = [IsConnected]"
      by (simp add: finally_block_run)
    with front show "CursorClose \<notin> set (calls (fst (db_script e)))"
      and "ConnectionClose \<notin> set (calls (fst (db_script e)))"
      by simp_all
  qed
qed

lemmas db_defs = db_script_def test_database_query_def try_body_def finally_block_def
  check_table_def check_leaderboard_def check_wrong_column_def print_column_def for_each_def
  enumerate1_def item_def connector_connect_def connection_is_connected_def connection_cursor_def
  cursor_execute_def cursor_fetchall_def do_cursor_close_def do_connection_close_def
  set_connection_def set_cursor_def read_connection_def read_cursor_def
  describe_users_def leaderboard_query_def wrong_column_query_def

text \<open>
  C2 as stated fails on two runs. In the first the server goes away during the first
  query: \<^verbatim>\<open>is_connected\<close> answers false in the \<^verbatim>\<open>finally\<close> block and neither close
  call is made. In the second every query succeeds and \<^verbatim>\<open>cursor.close()\<close> raises:
  \<^verbatim>\<open>connection.close()\<close> is never called and the exception leaves the function.
\<close>

theorem db_connection_left_open_counterexample:
  "calls (fst (db_script
      \<lparr>mysql_connect = \<lambda>h p d u pw. Inr (), is_connected = \<lambda>ln. Inr (ln = 18), new_cursor = Inr (),
       execute = \<lambda>q. Inl (Error ''2013: lost connection during query''),
       fetchall = \<lambda>q. Inr [], cursor_close = Inr (), connection_close = Inr ()\<rparr>)) =
     [Connect ''localhost'' 3306 ''prediction_system'' ''root'' ''root123456'', IsConnected, Cursor,
      Execute ''DESCRIBE users'', IsConnected] \<and>
   db_script
      \<lparr>mysql_connect = \<lambda>h p d u pw. Inr (), is_connected = \<lambda>ln. Inr True, new_cursor = Inr (),
       execute = \<lambda>q. Inr (), fetchall = \<lambda>q. Inr [],
       cursor_close = Inl (Error ''unread result found''), connection_close = Inr ()\<rparr> =
     ([Call (Connect ''localhost'' 3306 ''prediction_system'' ''root'' ''root123456'') (Inr DUnit),
       Call IsConnected (Inr (DBool True)), Call Cursor (Inr DUnit), Print 21 [], Print 24 [],
       Call (Execute ''DESCRIBE users'') (Inr DUnit), Call Fetchall (Inr (DRows [])),
       Print 31 [],
       Call (Execute ''SELECT id, username, nickname, points FROM users ORDER BY points DESC, createdAt ASC LIMIT 5'')
         (Inr DUnit),
       Call Fetchall (Inr (DRows [])), Print 35 [],
       Print 42 [],
       Call (Execute ''SELECT id, username FROM users ORDER BY points DESC, created_at ASC LIMIT 1'') (Inr DUnit),
       Print 45 [],
       Call IsConnected (Inr (DBool True)), Call CursorClose (Inl (Error ''unread result found''))],
      Raised (Error ''unread result found''))"
  by (simp add: db_defs prog_defs)

theorem db_closes_when_still_connected_witness:
  "\<exists>front. calls (fst (db_script
      \<lparr>mysql_connect = \<lambda>h p d u pw. Inr (), is_connected = \<lambda>ln. Inr True, new_cursor = Inr (),
       execute = \<lambda>q. Inl (Error ''1146: no such table''),
       fetchall = \<lambda>q. Inr [], cursor_close = Inr (), connection_close = Inr ()\<rparr>)) =
       front @ [IsConnected, CursorClose, ConnectionClose] \<and>
     CursorClose \<notin> set front \<and> ConnectionClose \<notin> set front"
  using db_closes_when_still_connected
    [of "\<lparr>mysql_connect = \<lambda>h p d u pw. Inr (), is_connected = \<lambda>ln. Inr True, new_cursor = Inr (),
       execute = \<lambda>q. Inl (Error ''1146: no such table''),
       fetchall = \<lambda>q. Inr [], cursor_close = Inr (), connection_close = Inr ()\<rparr>", THEN conjunct1]
  by simp

section \<open>The HTTP calls of the leaderboard and login scripts\<close>

lemma leaderboard_script_calls:
  "calls (fst (leaderboard_script e)) =
     [SubprocessRun [Lit ''powershell'', Lit ''-Command'', PsCmd ''http://localhost:1874/api/leaderboard''] 10,
      SubprocessRun [Lit ''powershell'', Lit ''-Command'',
        PsCmd ''http://localhost:1874/api/leaderboard?tournament=SUMMER&limit=5''] 10,
      SubprocessRun [Lit ''powershell'', Lit ''-Command'', PsCmd ''http://localhost:1874/api/leaderboard/stats''] 10,
      SubprocessRun [Lit ''powershell'', Lit ''-Command'',
        PsCmd ''http://localhost:1874/api/leaderboard/users/1/rank''] 10]"
  by (simp add: leaderboard_script_def test_leaderboard_api_run calls_concat comp_def
        endpoint_step_calls endpoints_def)

lemma login_script_calls:
  "calls (fst (login_script e)) =
     Get ''http://localhost:1874/health'' 5 #
       (case get e ''http://localhost:1874/health'' 5 of
          Inl _ \<Rightarrow> []
        | Inr r \<Rightarrow>
            if status_code r = 200
            then [Post ''http://localhost:1874/api/v1/auth/login''
                    [(''username'', ''root''), (''password'', ''root123456'')]
                    [(''Content-Type'', ''application/json'')] 10,
                  Post ''http://localhost:1874/api/v1/auth/login''
                    [(''username'', ''mengshang004''), (''password'', ''123456'')]
                    [(''Content-Type'', ''application/json'')] 10]
            else [])"
proof (cases "get e ''http://localhost:1874/health'' 5")
  case (Inl x)
  then show ?thesis by (simp add: login_script_unreachable)
next
  case (Inr r)
  then show ?thesis
    by (cases "status_code r = 200")
       (simp_all add: login_script_healthy login_script_unhealthy test_login_calls)
qed

text \<open>
  C7. \<^verbatim>\<open>test_login\<close> posts to the login endpoint exactly twice, first as
  \<^verbatim>\<open>root\<close> / \<^verbatim>\<open>root123456\<close>, then as \<^verbatim>\<open>mengshang004\<close> / \<^verbatim>\<open>123456\<close>, whatever
  the first attempt answered, and returns. The script's first call is the health check,
  and after a health check answered with status 200 its calls are the health check and
  the two logins. The model takes nothing but the answers of the outside world.
\<close>

theorem login_tries_two_credentials_in_order:
  "calls (fst (test_login e s)) =
     [Post ''http://localhost:1874/api/v1/auth/login''
        [(''username'', ''root''), (''password'', ''root123456'')]
        [(''Content-Type'', ''application/json'')] 10,
      Post ''http://localhost:1874/api/v1/auth/login''
        [(''username'', ''mengshang004''), (''password'', ''123456'')]
        [(''Content-Type'', ''application/json'')] 10] \<and>
   snd (test_login e s) = (s, Inr ()) \<and>
   take 1 (calls (fst (login_script e))) = [Get ''http://localhost:1874/health'' 5] \<and>
   (\<forall>r. get e ''http://localhost:1874/health'' 5 = Inr r \<and> status_code r = 200 \<longrightarrow>
      calls (fst (login_script e)) =
        [Get ''http://localhost:1874/health'' 5,
         Post ''http://localhost:1874/api/v1/auth/login''
           [(''username'', ''root''), (''password'', ''root123456'')]
           [(''Content-Type'', ''application/json'')] 10,
         Post ''http://localhost:1874/api/v1/auth/login''
           [(''username'', ''mengshang004''), (''password'', ''123456'')]
           [(''Content-Type'', ''application/json'')] 10])"
proof (intro conjI allI impI)
  show "calls (fst (test_login e s)) =
     [Post ''http://localhost:1874/api/v1/auth/login''
        [(''username'', ''root''), (''password'', ''root123456'')]
        [(''Content-Type'', ''application/json'')] 10,
      Post ''http://localhost:1874/api/v1/auth/login''
        [(''username'', ''mengshang004''), (''password'', ''123456'')]
        [(''Content-Type'', ''application/json'')] 10]"
    by (rule test_login_calls)
  show "snd (test_login e s) = (s, Inr ())"
    by (simp add: test_login_run)
  show "take 1 (calls (fst (login_script e))) = [Get ''http://localhost:1874/health'' 5]"
    by (simp add: login_script_calls)
  show "calls (fst (login_script e)) =
        [Get ''http://localhost:1874/health'' 5,
         Post ''http://localhost:1874/api/v1/auth/login''
           [(''username'', ''root''), (''password'', ''root123456'')]
           [(''Content-Type'', ''application/json'')] 10,
         Post ''http://localhost:1874/api/v1/auth/login''
           [(''username'', ''mengshang004''), (''password'', ''123456'')]
           [(''Content-Type'', ''application/json'')] 10]"
    if "get e ''http://localhost:1874/health'' 5 = Inr r \<and> status_code r = 200" for r
    using that by (simp add: login_script_calls)
qed

theorem login_tries_two_credentials_in_order_witness:
  "calls (fst (login_script
      \<lparr>get = \<lambda>u t. Inr \<lparr>status_code = 200, body_text = ''ok'', json = Inl (JSONDecodeError ''not JSON'')\<rparr>,
       post = \<lambda>u p h t. Inl (Timeout ''read timed out'')\<rparr>)) =
        [Get ''http://localhost:1874/health'' 5,
         Post ''http://localhost:1874/api/v1/auth/login''
           [(''username'', ''root''), (''password'', ''root123456'')]
           [(''Content-Type'', ''application/json'')] 10,
         Post ''http://localhost:1874/api/v1/auth/login''
           [(''username'', ''mengshang004''), (''password'', ''123456'')]
           [(''Content-Type'', ''application/json'')] 10]"
  using login_tries_two_credentials_in_order
    [of "\<lparr>get = \<lambda>u t. Inr \<lparr>status_code = 200, body_text = ''ok'', json = Inl (JSONDecodeError ''not JSON'')\<rparr>,
       post = \<lambda>u p h t. Inl (Timeout ''read timed out'')\<rparr>" "()",
     THEN conjunct2, THEN conjunct2, THEN conjunct2, rule_format,
     of "\<lparr>status_code = 200, body_text = ''ok'', json = Inl (JSONDecodeError ''not JSON'')\<rparr>"]
  by simp

text \<open>
  C5. The leaderboard script requests the four URLs of its list, the second with the
  query string \<^verbatim>\<open>?tournament=SUMMER&limit=5\<close>; the login script requests nothing but
  \<^verbatim>\<open>/health\<close> and \<^verbatim>\<open>/api/v1/auth/login\<close>, the latter with one of the two literal
  payloads and the JSON content type. The database script makes no HTTP request.
\<close>

theorem scripts_request_fixed_endpoints:
  "calls (fst (leaderboard_script le)) =
     [SubprocessRun [Lit ''powershell'', Lit ''-Command'', PsCmd ''http://localhost:1874/api/leaderboard''] 10,
      SubprocessRun [Lit ''powershell'', Lit ''-Command'',
        PsCmd ''http://localhost:1874/api/leaderboard?tournament=SUMMER&limit=5''] 10,
      SubprocessRun [Lit ''powershell'', Lit ''-Command'', PsCmd ''http://localhost:1874/api/leaderboard/stats''] 10,
      SubprocessRun [Lit ''powershell'', Lit ''-Command'',
        PsCmd ''http://localhost:1874/api/leaderboard/users/1/rank''] 10] \<and>
   set (calls (fst (login_script e))) \<subseteq>
     {Get ''http://localhost:1874/health'' 5,
      Post ''http://localhost:1874/api/v1/auth/login''
        [(''username'', ''root''), (''password'', ''root123456'')]
        [(''Content-Type'', ''application/json'')] 10,
      Post ''http://localhost:1874/api/v1/auth/login''
        [(''username'', ''mengshang004''), (''password'', ''123456'')]
        [(''Content-Type'', ''application/json'')] 10}"
proof
  show "calls (fst (leaderboard_script le)) =
     [SubprocessRun [Lit ''powershell'', Lit ''-Command'', PsCmd ''http://localhost:1874/api/leaderboard''] 10,
      SubprocessRun [Lit ''powershell'', Lit ''-Command'',
        PsCmd ''http://localhost:1874/api/leaderboard?tournament=SUMMER&limit=5''] 10,
      SubprocessRun [Lit ''powershell'', Lit ''-Command'', PsCmd ''http://localhost:1874/api/leaderboard/stats''] 10,
      SubprocessRun [Lit ''powershell'', Lit ''-Command'',
        PsCmd ''http://localhost:1874/api/leaderboard/users/1/rank''] 10]"
    by (rule leaderboard_script_calls)
  show "set (calls (fst (login_script e))) \<subseteq>
     {Get ''http://localhost:1874/health'' 5,
      Post ''http://localhost:1874/api/v1/auth/login''
        [(''username'', ''root''), (''password'', ''root123456'')]
        [(''Content-Type'', ''application/json'')] 10,
      Post ''http://localhost:1874/api/v1/auth/login''
        [(''username'', ''mengshang004''), (''password'', ''123456'')]
        [(''Content-Type'', ''application/json'')] 10}"
  proof (cases "get e ''http://localhost:1874/health'' 5")
    case (Inl x)
    then show ?thesis by (simp add: login_script_calls)
  next
    case (Inr r)
    then show ?thesis
      by (cases "status_code r = 200") (simp_all add: login_script_calls)
  qed
qed

section \<open>Timeouts and repetition\<close>

lemma finally_no_connect:
  "count_list (calls (fst (finally_block e s))) (Connect h p d u pw) = 0"
  by (simp add: finally_block_run split: option.splits sum.splits)

lemma db_connect_once:
  "count_list (calls (fst (db_script e)))
     (Connect ''localhost'' 3306 ''prediction_system'' ''root'' ''root123456'') = 1"
proof (cases "mysql_connect e ''localhost'' 3306 ''prediction_system'' ''root'' ''root123456''")
  case (Inl x)
  then show ?thesis
    by (simp add: db_script_no_connection)
next
  case (Inr u)
  then have c: "mysql_connect e ''localhost'' 3306 ''prediction_system'' ''root'' ''root123456'' = Inr ()"
    by simp
  show ?thesis
  proof (cases "is_connected e 18 = Inr True \<and> new_cursor e = Inr ()")
    case True
    with db_calls_with_cursor [OF c] show ?thesis
      by (auto simp add: finally_no_connect)
  next
    case False
    then have "is_connected e 18 \<noteq> Inr True \<or> new_cursor e \<noteq> Inr ()" by blast
    from try_part_no_cursor [OF c this] obtain t where t: "try_except (try_body e)
           (\<lambda>x. if is_Error x then Some (print 50 [PExc x]) else Some (print 52 [PExc x]))
           \<lparr>connection = None, cursor = None\<rparr> =
         (Call (Connect ''localhost'' 3306 ''prediction_system'' ''root'' ''root123456'') (Inr DUnit) # t,
          \<lparr>connection = Some (), cursor = None\<rparr>, Inr ())"
      and "calls t \<in> {[IsConnected], [IsConnected, Cursor]}"
      by blast
    then show ?thesis
      by (auto simp add: db_script_finally [OF t] finally_no_connect)
  qed
qed

lemma db_statements_distinct: "distinct (statements (calls (fst (db_script e))))"
  unfolding db_statements describe_users_def leaderboard_query_def wrong_column_query_def
  by (simp split: sum.splits)

text \<open>
  C6. Every call of the leaderboard script is a \<^verbatim>\<open>subprocess.run\<close> with timeout 10; every
  call of the login script is the health check with timeout 5 or a login request with
  timeout 10. No call is repeated: the four subprocess calls of a run are distinct, the
  calls of the login script are distinct, the health check is made exactly once and,
  after a health check answered with status 200, so is each of the two login requests;
  the database script connects exactly once and executes no statement twice.
\<close>

theorem calls_carry_timeouts_and_are_made_once:
  "(\<forall>c \<in> set (calls (fst (leaderboard_script le))). \<exists>args. c = SubprocessRun args 10) \<and>
   distinct (calls (fst (leaderboard_script le))) \<and>
   length (calls (fst (leaderboard_script le))) = 4 \<and>
   (\<forall>c \<in> set (calls (fst (login_script e))).
       c = Get ''http://localhost:1874/health'' 5 \<or> (\<exists>u p h. c = Post u p h 10)) \<and>
   distinct (calls (fst (login_script e))) \<and>
   count_list (calls (fst (login_script e))) (Get ''http://localhost:1874/health'' 5) = 1 \<and>
   (\<forall>r. get e ''http://localhost:1874/health'' 5 = Inr r \<and> status_code r = 200 \<longrightarrow>
      count_list (calls (fst (login_script e)))
        (Post ''http://localhost:1874/api/v1/auth/login''
           [(''username'', ''root''), (''password'', ''root123456'')]
           [(''Content-Type'', ''application/json'')] 10) = 1 \<and>
      count_list (calls (fst (login_script e)))
        (Post ''http://localhost:1874/api/v1/auth/login''
           [(''username'', ''mengshang004''), (''password'', ''123456'')]
           [(''Content-Type'', ''application/json'')] 10) = 1) \<and>
   count_list (calls (fst (db_script de)))
     (Connect ''localhost'' 3306 ''prediction_system'' ''root'' ''root123456'') = 1 \<and>
   distinct (statements (calls (fst (db_script de))))"
proof -
  have posts: "\<forall>r. get e ''http://localhost:1874/health'' 5 = Inr r \<and> status_code r = 200 \<longrightarrow>
      count_list (calls (fst (login_script e)))
        (Post ''http://localhost:1874/api/v1/auth/login''
           [(''username'', ''root''), (''password'', ''root123456'')]
           [(''Content-Type'', ''application/json'')] 10) = 1 \<and>
      count_list (calls (fst (login_script e)))
        (Post ''http://localhost:1874/api/v1/auth/login''
           [(''username'', ''mengshang004''), (''password'', ''123456'')]
           [(''Content-Type'', ''application/json'')] 10) = 1"
    by (simp add: login_script_calls)
  have login: "(\<forall>c \<in> set (calls (fst (login_script e))).
       c = Get ''http://localhost:1874/health'' 5 \<or> (\<exists>u p h. c = Post u p h 10)) \<and>
   distinct (calls (fst (login_script e))) \<and>
   count_list (calls (fst (login_script e))) (Get ''http://localhost:1874/health'' 5) = 1"
  proof (cases "get e ''http://localhost:1874/health'' 5")
    case (Inl x)
    then show ?thesis by (simp add: login_script_calls)
  next
    case (Inr r)
    then show ?thesis
      by (cases "status_code r = 200") (simp_all add: login_script_calls)
  qed
  have lb: "(\<forall>c \<in> set (calls (fst (leaderboard_script le))). \<exists>args. c = SubprocessRun args 10) \<and>
   distinct (calls (fst (leaderboard_script le))) \<and>
   length (calls (fst (leaderboard_script le))) = 4"
    by (simp add: leaderboard_script_calls)
  from lb login posts db_connect_once [of de] db_statements_distinct [of de] show ?thesis
    by blast
qed

theorem calls_carry_timeouts_and_are_made_once_witness:
  "(\<exists>c \<in> set (calls (fst (leaderboard_script (\<lambda>args timeout. Inl (TimeoutExpired ''powershell''))))). \<exists>args. c = SubprocessRun args 10) \<and>
   count_list (calls (fst (login_script
      \<lparr>get = \<lambda>u t. Inr \<lparr>status_code = 200, body_text = ''ok'', json = Inl (JSONDecodeError ''not JSON'')\<rparr>,
       post = \<lambda>u p h t. Inl (Timeout ''timed out'')\<rparr>)))
     (Get ''http://localhost:1874/health'' 5) = 1 \<and>
   count_list (calls (fst (login_script
      \<lparr>get = \<lambda>u t. Inr \<lparr>status_code = 200, body_text = ''ok'', json = Inl (JSONDecodeError ''not JSON'')\<rparr>,
       post = \<lambda>u p h t. Inl (Timeout ''timed out'')\<rparr>)))
     (Post ''http://localhost:1874/api/v1/auth/login''
        [(''username'', ''mengshang004''), (''password'', ''123456'')]
        [(''Content-Type'', ''application/json'')] 10) = 1"
proof -
  note t = calls_carry_timeouts_and_are_made_once
    [of "(\<lambda>args timeout. Inl (TimeoutExpired ''powershell''))"
        "\<lparr>get = \<lambda>u t. Inr \<lparr>status_code = 200, body_text = ''ok'', json = Inl (JSONDecodeError ''not JSON'')\<rparr>,
       post = \<lambda>u p h t. Inl (Timeout ''timed out'')\<rparr>"]
  from t have a: "\<forall>c \<in> set (calls (fst (leaderboard_script (\<lambda>args timeout. Inl (TimeoutExpired ''powershell''))))). \<exists>args. c = SubprocessRun args 10"
    and b: "length (calls (fst (leaderboard_script (\<lambda>args timeout. Inl (TimeoutExpired ''powershell''))))) = 4"
    and c: "count_list (calls (fst (login_script
      \<lparr>get = \<lambda>u t. Inr \<lparr>status_code = 200, body_text = ''ok'', json = Inl (JSONDecodeError ''not JSON'')\<rparr>,
       post = \<lambda>u p h t. Inl (Timeout ''timed out'')\<rparr>)))
     (Get ''http://localhost:1874/health'' 5) = 1"
    and d: "\<forall>r. get \<lparr>get = \<lambda>u t. Inr \<lparr>status_code = 200, body_text = ''ok'', json = Inl (JSONDecodeError ''not JSON'')\<rparr>,
       post = \<lambda>u p h t. Inl (Timeout ''timed out'')\<rparr> ''http://localhost:1874/health'' 5 = Inr r \<and> status_code r = 200 \<longrightarrow>
      count_list (calls (fst (login_script
      \<lparr>get = \<lambda>u t. Inr \<lparr>status_code = 200, body_text = ''ok'', json = Inl (JSONDecodeError ''not JSON'')\<rparr>,
       post = \<lambda>u p h t. Inl (Timeout ''timed out'')\<rparr>)))
        (Post ''http://localhost:1874/api/v1/auth/login''
           [(''username'', ''root''), (''password'', ''root123456'')]
           [(''Content-Type'', ''application/json'')] 10) = 1 \<and>
      count_list (calls (fst (login_script
      \<lparr>get = \<lambda>u t. Inr \<lparr>status_code = 200, body_text = ''ok'', json = Inl (JSONDecodeError ''not JSON'')\<rparr>,
       post = \<lambda>u p h t. Inl (Timeout ''timed out'')\<rparr>)))
        (Post ''http://localhost:1874/api/v1/auth/login''
           [(''username'', ''mengshang004''), (''password'', ''123456'')]
           [(''Content-Type'', ''application/json'')] 10) = 1"
    by blast+
  from b obtain c0 where "c0 \<in> set (calls (fst (leaderboard_script (\<lambda>args timeout. Inl (TimeoutExpired ''powershell'')))))"
    by (cases "calls (fst (leaderboard_script (\<lambda>args timeout. Inl (TimeoutExpired ''powershell''))))") auto
  moreover from d [rule_format,
      of "\<lparr>status_code = 200, body_text = ''ok'', json = Inl (JSONDecodeError ''not JSON'')\<rparr>"]
  have "count_list (calls (fst (login_script
      \<lparr>get = \<lambda>u t. Inr \<lparr>status_code = 200, body_text = ''ok'', json = Inl (JSONDecodeError ''not JSON'')\<rparr>,
       post = \<lambda>u p h t. Inl (Timeout ''timed out'')\<rparr>)))
        (Post ''http://localhost:1874/api/v1/auth/login''
           [(''username'', ''mengshang004''), (''password'', ''123456'')]
           [(''Content-Type'', ''application/json'')] 10) = 1"
    by simp
  ultimately show ?thesis
    using a c by blast
qed

section \<open>Runs are determined by the answers of the outside world\<close>

lemma determinedD:
  "determined m \<Longrightarrow> interactions (fst (m e1 s)) @ z1 = interactions (fst (m e2 s)) @ z2 \<Longrightarrow>
   m e1 s = m e2 s"
  unfolding determined_def by blast

lemma determined_const: "determined (\<lambda>e. m)"
  by (simp add: determined_def)

lemma determined_call:
  assumes "inj rec"
  shows "determined (\<lambda>e. call c rec (f e))"
proof -
  have "f e1 = f e2" if "map_sum id rec (f e1) = map_sum id rec (f e2)" for e1 e2
    using that assms by (cases "f e1"; cases "f e2") (auto dest: injD)
  then show ?thesis
    by (auto simp: determined_def call_def)
qed

text \<open>One piece after another, the second chosen by how the first ended.\<close>

lemma determined_then:
  assumes m: "determined m" and g: "\<And>r. determined (\<lambda>e. g e r)"
  shows "determined (\<lambda>e s. case m e s of (t, s', r) \<Rightarrow>
            (case g e r s' of (t', s'', r') \<Rightarrow> (t @ t', s'', r')))"
  unfolding determined_def
proof (intro allI impI)
  fix e1 e2 s z1 z2
  let ?F = "\<lambda>e s. case m e s of (t, s', r) \<Rightarrow>
            (case g e r s' of (t', s'', r') \<Rightarrow> (t @ t', s'', r'))"
  assume eq: "interactions (fst (?F e1 s)) @ z1 = interactions (fst (?F e2 s)) @ z2"
  obtain t1 s1 r1 where m1: "m e1 s = (t1, s1, r1)" by (cases "m e1 s")
  obtain t2 s2 r2 where m2: "m e2 s = (t2, s2, r2)" by (cases "m e2 s")
  obtain u1 p1 q1 where g1: "g e1 r1 s1 = (u1, p1, q1)" by (cases "g e1 r1 s1")
  obtain u2 p2 q2 where g2: "g e2 r2 s2 = (u2, p2, q2)" by (cases "g e2 r2 s2")
  from eq m1 m2 g1 g2
  have eq': "interactions t1 @ interactions u1 @ z1 = interactions t2 @ interactions u2 @ z2"
    by simp
  then have "interactions (fst (m e1 s)) @ (interactions u1 @ z1) =
             interactions (fst (m e2 s)) @ (interactions u2 @ z2)"
    using m1 m2 by simp
  from determinedD [OF m this] m1 m2 have same: "t2 = t1" "s2 = s1" "r2 = r1"
    by simp_all
  with eq' g1 g2 have "interactions (fst (g e1 r1 s1)) @ z1 = interactions (fst (g e2 r1 s1)) @ z2"
    by simp
  from determinedD [OF g this] have "g e1 r1 s1 = g e2 r1 s1" .
  with m1 m2 same show "?F e1 s = ?F e2 s"
    by simp
qed

lemma determined_bind:
  assumes "determined m" and "\<And>a. determined (\<lambda>e. k e a)"
  shows "determined (\<lambda>e. bind (m e) (k e))"
proof -
  have eqn: "bind (m e) (k e) = (\<lambda>s. case m e s of (t, s', r) \<Rightarrow>
      (case (case r of Inl x \<Rightarrow> raise x | Inr a \<Rightarrow> k e a) s' of (t', s'', r') \<Rightarrow> (t @ t', s'', r')))" for e
    by (rule ext) (simp add: bind_def raise_def split: prod.splits sum.splits)
  have "determined (\<lambda>e. case r of Inl x \<Rightarrow> raise x | Inr a \<Rightarrow> k e a)" for r
    by (cases r) (simp_all add: determined_const assms(2))
  then have "determined (\<lambda>e s. case m e s of (t, s', r) \<Rightarrow>
      (case (case r of Inl x \<Rightarrow> raise x | Inr a \<Rightarrow> k e a) s' of (t', s'', r') \<Rightarrow> (t @ t', s'', r')))"
    by (rule determined_then [OF assms(1), where g = "\<lambda>e r. case r of Inl x \<Rightarrow> raise x | Inr a \<Rightarrow> k e a"])
  then show ?thesis
    unfolding eqn .
qed

lemma determined_try_except:
  assumes "determined m" and "\<And>x. determined (\<lambda>e. h e x)"
  shows "determined (\<lambda>e. try_except (m e) (\<lambda>x. Some (h e x)))"
proof -
  have eqn: "try_except (m e) (\<lambda>x. Some (h e x)) = (\<lambda>s. case m e s of (t, s', r) \<Rightarrow>
      (case (case r of Inl x \<Rightarrow> h e x | Inr a \<Rightarrow> ret a) s' of (t', s'', r') \<Rightarrow> (t @ t', s'', r')))" for e
    by (rule ext) (simp add: try_except_def ret_def split: prod.splits sum.splits)
  have "determined (\<lambda>e. case r of Inl x \<Rightarrow> h e x | Inr a \<Rightarrow> ret a)" for r
    by (cases r) (simp_all add: determined_const assms(2))
  then have "determined (\<lambda>e s. case m e s of (t, s', r) \<Rightarrow>
      (case (case r of Inl x \<Rightarrow> h e x | Inr a \<Rightarrow> ret a) s' of (t', s'', r') \<Rightarrow> (t @ t', s'', r')))"
    by (rule determined_then [OF assms(1), where g = "\<lambda>e r. case r of Inl x \<Rightarrow> h e x | Inr a \<Rightarrow> ret a"])
  then show ?thesis
    unfolding eqn .
qed

lemma determined_try_finally:
  assumes "determined m" and "determined f"
  shows "determined (\<lambda>e. try_finally (m e) (f e))"
proof -
  have eqn: "try_finally (m e) (f e) = (\<lambda>s. case m e s of (t, s', r) \<Rightarrow>
      (case bind (f e) (\<lambda>_. lift r) s' of (t', s'', r') \<Rightarrow> (t @ t', s'', r')))" for e
    by (rule ext) (simp add: try_finally_def bind_def lift_def split: prod.splits sum.splits)
  have "determined (\<lambda>e. bind (f e) (\<lambda>_. lift r))" for r :: "exc + 'e"
    by (rule determined_bind [OF assms(2)]) (rule determined_const)
  then have "determined (\<lambda>e s. case m e s of (t, s', r) \<Rightarrow>
      (case bind (f e) (\<lambda>_. lift r) s' of (t', s'', r') \<Rightarrow> (t @ t', s'', r')))"
    by (rule determined_then [OF assms(1), where g = "\<lambda>e r. bind (f e) (\<lambda>_. lift r)"])
  then show ?thesis
    unfolding eqn .
qed

lemma determined_if:
  assumes "determined a" and "determined b"
  shows "determined (\<lambda>e. if c then a e else b e)"
  using assms by (cases c) (simp_all add: determined_def)

lemma determined_block_Cons:
  assumes "determined m" and "determined (\<lambda>e. block (ms e))"
  shows "determined (\<lambda>e. block (m e # ms e))"
  unfolding block.simps by (rule determined_bind [OF assms(1)]) (rule assms(2))

lemma determined_for_each:
  assumes "\<And>x. determined (\<lambda>e. body e x)"
  shows "determined (\<lambda>e. for_each xs (body e))"
proof (induction xs)
  case Nil
  show ?case by (simp add: for_each_def block.simps determined_const)
next
  case (Cons x xs)
  then show ?case
    unfolding for_each_def list.map by (intro determined_block_Cons assms)
qed

lemma determined_run:
  assumes "determined m" and "interactions (fst (m e1 s)) = interactions (fst (m e2 s))"
  shows "m e1 s = m e2 s"
  using determinedD [OF assms(1), of e1 s "[]" e2 "[]"] assms(2) by simp

lemma Some_if: "(if c then Some a else Some b) = Some (if c then a else b)"
  by simp

lemma inj_DUnit: "inj (\<lambda>_ :: unit. DUnit)"
  by (simp add: inj_def)

lemma inj_DBool: "inj DBool"
  by (simp add: inj_def)

lemma inj_DRows: "inj DRows"
  by (simp add: inj_def)

lemmas determined_rules = determined_const determined_call determined_bind determined_try_except
  determined_try_finally determined_if determined_for_each

lemma determined_test_leaderboard_api: "determined test_leaderboard_api"
proof -
  have "determined (\<lambda>e. test_endpoint e u)" for u
    unfolding test_endpoint_def subprocess_run_def
    by (intro determined_rules) simp
  then have "determined (\<lambda>e. test_leaderboard_api e)"
    unfolding test_leaderboard_api_def block.simps
    by (intro determined_rules)
  then show ?thesis .
qed

lemma determined_login_main: "determined login_main"
proof -
  have attempt: "determined (\<lambda>e. login_attempt e u)" for u
    unfolding login_attempt_def requests_post_def block.simps Some_if
    by (intro determined_rules) simp
  have "determined (\<lambda>e. test_login e)"
    unfolding test_login_def block.simps
    by (intro determined_rules attempt)
  moreover have "determined (\<lambda>e. check_backend_status e)"
    unfolding check_backend_status_def requests_get_def
    by (intro determined_rules) simp
  ultimately have "determined (\<lambda>e. login_main e)"
    unfolding login_main_def block.simps
    by (intro determined_rules)
  then show ?thesis .
qed

lemma determined_test_database_query: "determined test_database_query"
proof -
  have table: "determined (\<lambda>e. check_table e)"
    unfolding check_table_def cursor_execute_def cursor_fetchall_def block.simps
    by (intro determined_rules inj_DUnit inj_DRows)
  have board: "determined (\<lambda>e. check_leaderboard e)"
    unfolding check_leaderboard_def cursor_execute_def cursor_fetchall_def block.simps
    by (intro determined_rules inj_DUnit inj_DRows)
  have wrong: "determined (\<lambda>e. check_wrong_column e)"
    unfolding check_wrong_column_def cursor_execute_def block.simps
    by (intro determined_rules inj_DUnit)
  have body: "determined (\<lambda>e. try_body e)"
    unfolding try_body_def connector_connect_def connection_is_connected_def connection_cursor_def
      block.simps
    by (intro determined_rules inj_DUnit inj_DBool table board wrong)
  have fin: "determined (\<lambda>e. finally_block e)"
    unfolding finally_block_def connection_is_connected_def do_cursor_close_def
      do_connection_close_def block.simps
    by (intro determined_rules inj_DUnit inj_DBool)
  have "determined (\<lambda>e. test_database_query e)"
    unfolding test_database_query_def Some_if
    by (intro determined_rules body fin)
  then show ?thesis .
qed

text \<open>
  C8. For each of the three scripts: two runs in which the external calls, one after the
  other, gave the same answers print the same lines, and are in fact the same run (the
  same events and the same end). The scripts are functions of the answers alone: the
  model has no other input, as the sources read no argument, environment variable, clock
  or random source.
\<close>

theorem output_determined_by_answers:
  "(interactions (fst (leaderboard_script a1)) = interactions (fst (leaderboard_script a2)) \<longrightarrow>
      printed (fst (leaderboard_script a1)) = printed (fst (leaderboard_script a2)) \<and>
      leaderboard_script a1 = leaderboard_script a2) \<and>
   (interactions (fst (login_script b1)) = interactions (fst (login_script b2)) \<longrightarrow>
      printed (fst (login_script b1)) = printed (fst (login_script b2)) \<and>
      login_script b1 = login_script b2) \<and>
   (interactions (fst (db_script c1)) = interactions (fst (db_script c2)) \<longrightarrow>
      printed (fst (db_script c1)) = printed (fst (db_script c2)) \<and>
      db_script c1 = db_script c2)"
proof (intro conjI impI)
  assume "interactions (fst (leaderboard_script a1)) = interactions (fst (leaderboard_script a2))"
  then have "interactions (fst (test_leaderboard_api a1 ())) = interactions (fst (test_leaderboard_api a2 ()))"
    by (simp add: leaderboard_script_def split_def)
  from determined_run [OF determined_test_leaderboard_api, OF this]
  show lb: "leaderboard_script a1 = leaderboard_script a2"
    by (simp add: leaderboard_script_def)
  then show "printed (fst (leaderboard_script a1)) = printed (fst (leaderboard_script a2))"
    by simp
next
  assume "interactions (fst (login_script b1)) = interactions (fst (login_script b2))"
  then have "interactions (fst (login_main b1 ())) = interactions (fst (login_main b2 ()))"
    by (simp add: login_script_def split_def)
  from determined_run [OF determined_login_main, OF this]
  show lg: "login_script b1 = login_script b2"
    by (simp add: login_script_def)
  then show "printed (fst (login_script b1)) = printed (fst (login_script b2))"
    by simp
next
  assume "interactions (fst (db_script c1)) = interactions (fst (db_script c2))"
  then have "interactions (fst (test_database_query c1 \<lparr>connection = None, cursor = None\<rparr>)) =
             interactions (fst (test_database_query c2 \<lparr>connection = None, cursor = None\<rparr>))"
    by (simp add: db_script_def split_def)
  from determined_run [OF determined_test_database_query, OF this]
  show db: "db_script c1 = db_script c2"
    by (simp add: db_script_def)
  then show "printed (fst (db_script c1)) = printed (fst (db_script c2))"
    by simp
qed

theorem output_determined_by_answers_witness:
  "printed (fst (login_script
      \<lparr>get = \<lambda>u t. Inl (ConnectionError ''connection refused''),
       post = \<lambda>u p h t. Inl (ConnectionError ''connection refused'')\<rparr>)) =
   printed (fst (login_script
      \<lparr>get = \<lambda>u t. Inl (ConnectionError ''connection refused''),
       post = \<lambda>u p h t. Inl (Timeout ''read timed out'')\<rparr>))"
  using output_determined_by_answers
    [THEN conjunct2, THEN conjunct1,
     of "\<lparr>get = \<lambda>u t. Inl (ConnectionError ''connection refused''),
       post = \<lambda>u p h t. Inl (ConnectionError ''connection refused'')\<rparr>"
        "\<lparr>get = \<lambda>u t. Inl (ConnectionError ''connection refused''),
       post = \<lambda>u p h t. Inl (Timeout ''read timed out'')\<rparr>"]
  by (simp add: login_script_unreachable)

end
